theory Spec2Isabelle
  imports Complex_Main "HOL-Library.AList"
begin

section \<open>Python values, exceptions and effects\<close>

text \<open>
  The services of the repository are Python classes around three network clients
  (redis-py, the Cassandra driver, pymongo) and an ORM table. A method is embedded as a
  function from the state of its backend to a result and the new state. A result is
  \<open>Inl e\<close> when the Python code raises \<open>e\<close> and \<open>Inr v\<close> when it returns \<open>v\<close>, so a
  \<^verbatim>\<open>try: ... except Exception:\<close> block is a visible step of the embedding, and a
  statement that sits outside every \<^verbatim>\<open>try\<close> can raise in the embedding as it can in
  the source. Every constructor of \<open>exn\<close> is a subclass of Python's \<open>Exception\<close>.
\<close>

datatype exn = AttributeError | ConnectionError | ResponseError | DataError
  | ValueError | OverflowError | DriverError | HTTPException

text \<open>
  A JSON value as \<^verbatim>\<open>request.get_json()\<close> delivers it. \<open>JInt\<close> is a Python \<open>int\<close>, of any
  size; \<open>JNum\<close> is a Python \<open>float\<close>, given by the (finite) number it stands for. \<open>bool\<close> is
  its own constructor (in Python it is a subclass of \<open>int\<close>, which is why the source
  tests for it).
\<close>

datatype jvalue = JInt int | JNum real | JStr string | JBool bool | JNull
  | JArr "jvalue list" | JObj "(string \<times> jvalue) list"

text \<open>
  \<open>float(i)\<close> of an \<open>int\<close>: the nearest double, ties to the even mantissa; an integer
  that rounds to 2 to the 1024 or beyond raises \<open>OverflowError\<close>. An integer of at most
  53 bits is its own double.
\<close>

fun bit_length :: "nat \<Rightarrow> nat" where
  "bit_length n = (if n = 0 then 0 else Suc (bit_length (n div 2)))"

definition float_of_int :: "int \<Rightarrow> exn + real" where
  "float_of_int i =
     (let n = nat \<bar>i\<bar>;
          k = bit_length n - 53;
          q = n div 2 ^ k;
          r = n mod 2 ^ k;
          q' = (if 2 ^ k < 2 * r \<or> (2 * r = 2 ^ k \<and> odd q) then q + 1 else q)
      in if 1024 < bit_length (q' * 2 ^ k) then Inl OverflowError
         else Inr (real_of_int (sgn i * int (q' * 2 ^ k))))"

text \<open>\<open>repr(i)\<close> of an \<open>int\<close>, its decimal text; redis-py sends an integer as this text.\<close>

fun decimal :: "nat \<Rightarrow> string" where
  "decimal n = (if n < 10 then [char_of (48 + n)] else decimal (n div 10) @ [char_of (48 + n mod 10)])"

definition repr_int :: "int \<Rightarrow> string" where
  "repr_int i = (if i < 0 then CHR ''-'' # decimal (nat (- i)) else decimal (nat i))"

type_synonym ('s, 'a) io = "'s \<Rightarrow> (exn + 'a) \<times> 's"

definition ret :: "'a \<Rightarrow> ('s, 'a) io" where
  "ret v s = (Inr v, s)"

definition throw :: "exn \<Rightarrow> ('s, 'a) io" where
  "throw e s = (Inl e, s)"

definition lift :: "exn + 'a \<Rightarrow> ('s, 'a) io" where
  "lift x s = (x, s)"

definition and_then :: "('s, 'a) io \<Rightarrow> ('a \<Rightarrow> ('s, 'b) io) \<Rightarrow> ('s, 'b) io" where
  "and_then m f s = (case m s of (Inl e, s') \<Rightarrow> (Inl e, s') | (Inr v, s') \<Rightarrow> f v s')"

text \<open>\<^verbatim>\<open>try: m except Exception: return d\<close> (the handlers of the services only log).\<close>

definition try_except :: "('s, 'a) io \<Rightarrow> 'a \<Rightarrow> ('s, 'a) io" where
  "try_except m d s = (case m s of (Inl e, s') \<Rightarrow> (Inr d, s') | (Inr v, s') \<Rightarrow> (Inr v, s'))"

text \<open>
  Every call to a backend goes over the network and may fail. The outcome of the calls
  to come is a script held in the backend's state: the head says whether the next call
  raises, and an empty script means that no further call fails.
\<close>

definition next_call :: "bool list \<Rightarrow> bool \<times> bool list" where
  "next_call fs = (case fs of [] \<Rightarrow> (False, []) | f # rest \<Rightarrow> (f, rest))"

section \<open>The Redis server as the client sees it\<close>

text \<open>
  Key names are f-strings with one fixed prefix per namespace, followed by the
  device id or the caller's key (\<^verbatim>\<open>f"telemetry:latest:{device_id}"\<close>,
  \<^verbatim>\<open>f"ratelimit:{key}"\<close>, \<^verbatim>\<open>"devices:online"\<close>); a constructor keeps the namespace
  and the id. A string value is one of the three kinds of text the service writes: the
  decimal text of an integer, the JSON text of a device dictionary, and an ISO
  timestamp. A hash field holds the text of a number or a string sent as it is.
  Counters are unbounded here (Redis holds 64-bit values); an expiry time is bounded
  as in Redis, which keeps it as a signed 64-bit number of milliseconds.
\<close>

datatype rkey = KDevice int | KApiKey string | KLastSeen int | KLatest int
  | KRateLimit string | KAlerts int | KOnline

record device_info =
  di_device_id :: int
  di_user_id :: int
  di_status :: string

datatype sval = SInt int | SDoc device_info | STime real

datatype hval = HNum real | HStr string

datatype rvalue = RStr sval | RHash "(string \<times> hval) list" | RZSet "(int \<times> real) list"

text \<open>
  \<open>connected\<close> is \<^verbatim>\<open>self.client is not None\<close> (\<open>_connect\<close> leaves \<open>None\<close> when the
  first ping fails); \<open>clock\<close> is the one clock of the process (\<^verbatim>\<open>time.time()\<close>,
  \<^verbatim>\<open>datetime.now\<close>) and of the server, in seconds; an entry of \<open>db\<close> is a value and
  the instant at which it expires, if it has a time to live.
\<close>

record redis =
  connected :: bool
  faults :: "bool list"
  clock :: real
  db :: "rkey \<Rightarrow> (rvalue \<times> real option) option"

text \<open>\<^verbatim>\<open>self.client.<command>\<close>: attribute access on \<open>None\<close> raises.\<close>

definition client :: "(redis, unit) io" where
  "client r = (if connected r then (Inr (), r) else (Inl AttributeError, r))"

definition wire :: "(redis, unit) io" where
  "wire r = (case next_call (faults r) of
      (True, rest) \<Rightarrow> (Inl ConnectionError, r\<lparr>faults := rest\<rparr>)
    | (False, rest) \<Rightarrow> (Inr (), r\<lparr>faults := rest\<rparr>))"

definition transport :: "(redis, unit) io" where
  "transport = and_then client (\<lambda>_. wire)"

text \<open>An entry whose expiry instant has been reached is gone.\<close>

definition live :: "redis \<Rightarrow> rkey \<Rightarrow> (rvalue \<times> real option) option" where
  "live r k = (case db r k of
      None \<Rightarrow> None
    | Some (v, None) \<Rightarrow> Some (v, None)
    | Some (v, Some t) \<Rightarrow> (if clock r < t then Some (v, Some t) else None))"

definition store :: "rkey \<Rightarrow> rvalue \<Rightarrow> real option \<Rightarrow> redis \<Rightarrow> redis" where
  "store k v ex r = r\<lparr>db := (db r)(k \<mapsto> (v, ex))\<rparr>"

definition r_ping :: "(redis, bool) io" where
  "r_ping = and_then transport (\<lambda>_. ret True)"

definition r_get :: "rkey \<Rightarrow> (redis, sval option) io" where
  "r_get k = and_then transport (\<lambda>_ r.
     case live r k of
       None \<Rightarrow> (Inr None, r)
     | Some (RStr s, _) \<Rightarrow> (Inr (Some s), r)
     | Some (_, _) \<Rightarrow> (Inl ResponseError, r))"

text \<open>
  A time to live in seconds is turned into milliseconds and added to the server's
  clock in milliseconds; Redis refuses it (\<^verbatim>\<open>invalid expire time\<close>) when its magnitude
  exceeds \<open>LLONG_MAX / 1000\<close> or the sum exceeds \<open>LLONG_MAX\<close>. SETEX also refuses a time
  to live that is not positive; SET drops the time to live.
\<close>

definition llong_max :: int where
  "llong_max = 9223372036854775807"

definition representable :: "real \<Rightarrow> int \<Rightarrow> bool" where
  "representable now ttl =
     (- (llong_max div 1000) \<le> ttl \<and> ttl \<le> llong_max div 1000 \<and>
      ttl * 1000 + \<lfloor>now * 1000\<rfloor> \<le> llong_max)"

definition r_setex :: "rkey \<Rightarrow> int \<Rightarrow> sval \<Rightarrow> (redis, unit) io" where
  "r_setex k ttl v = and_then transport (\<lambda>_ r.
     if ttl \<le> 0 \<or> \<not> representable (clock r) ttl then (Inl ResponseError, r)
     else (Inr (), store k (RStr v) (Some (clock r + real_of_int ttl)) r))"

definition r_set :: "rkey \<Rightarrow> sval \<Rightarrow> (redis, unit) io" where
  "r_set k v = and_then transport (\<lambda>_ r. (Inr (), store k (RStr v) None r))"

definition r_delete :: "rkey list \<Rightarrow> (redis, unit) io" where
  "r_delete ks = and_then transport (\<lambda>_ r.
     (Inr (), r\<lparr>db := (\<lambda>k. if k \<in> set ks then None else db r k)\<rparr>))"

text \<open>INCR keeps the time to live of the counter; a missing counter starts at 0.\<close>

definition r_incr :: "rkey \<Rightarrow> (redis, int) io" where
  "r_incr k = and_then transport (\<lambda>_ r.
     case live r k of
       None \<Rightarrow> (Inr 1, store k (RStr (SInt 1)) None r)
     | Some (RStr (SInt i), ex) \<Rightarrow> (Inr (i + 1), store k (RStr (SInt (i + 1))) ex r)
     | Some (_, _) \<Rightarrow> (Inl ResponseError, r))"

text \<open>
  redis-py encodes the arguments of a command before it sends it: \<open>int\<close> and \<open>float\<close>
  by \<open>repr\<close>, \<open>str\<close> as it is, and it raises \<open>DataError\<close> for \<open>bool\<close>, \<open>None\<close>, lists and
  dictionaries, and for an \<open>hset\<close> without a field. In the hash an \<open>int\<close> is the same
  as the \<open>str\<close> of its decimal text; \<open>HNum x\<close> is the \<open>repr\<close> of the float \<open>x\<close>.
\<close>

definition encode :: "jvalue \<Rightarrow> exn + hval" where
  "encode v =
     (case v of
        JInt i \<Rightarrow> Inr (HStr (repr_int i))
      | JNum x \<Rightarrow> Inr (HNum x)
      | JStr s \<Rightarrow> Inr (HStr s)
      | _ \<Rightarrow> Inl DataError)"

fun encode_all :: "(string \<times> jvalue) list \<Rightarrow> exn + (string \<times> hval) list" where
  "encode_all [] = Inr []"
| "encode_all ((k, v) # kvs) =
     (case encode v of
        Inl e \<Rightarrow> Inl e
      | Inr h \<Rightarrow> (case encode_all kvs of Inl e \<Rightarrow> Inl e | Inr hs \<Rightarrow> Inr ((k, h) # hs)))"

definition hset_fields :: "(string \<times> hval) list \<Rightarrow> (string \<times> hval) list \<Rightarrow> (string \<times> hval) list" where
  "hset_fields old new = fold (\<lambda>(f, v). AList.update f v) new old"

definition r_hset :: "rkey \<Rightarrow> (string \<times> jvalue) list \<Rightarrow> (redis, unit) io" where
  "r_hset k mapping = and_then client (\<lambda>_.
     if mapping = [] then throw DataError
     else and_then (lift (encode_all mapping)) (\<lambda>fields. and_then wire (\<lambda>_ r.
       case live r k of
         None \<Rightarrow> (Inr (), store k (RHash (hset_fields [] fields)) None r)
       | Some (RHash old, ex) \<Rightarrow> (Inr (), store k (RHash (hset_fields old fields)) ex r)
       | Some (_, _) \<Rightarrow> (Inl ResponseError, r))))"

definition r_hgetall :: "rkey \<Rightarrow> (redis, (string \<times> hval) list) io" where
  "r_hgetall k = and_then transport (\<lambda>_ r.
     case live r k of
       None \<Rightarrow> (Inr [], r)
     | Some (RHash h, _) \<Rightarrow> (Inr h, r)
     | Some (_, _) \<Rightarrow> (Inl ResponseError, r))"

definition r_hget :: "rkey \<Rightarrow> string \<Rightarrow> (redis, hval option) io" where
  "r_hget k f = and_then transport (\<lambda>_ r.
     case live r k of
       None \<Rightarrow> (Inr None, r)
     | Some (RHash h, _) \<Rightarrow> (Inr (map_of h f), r)
     | Some (_, _) \<Rightarrow> (Inl ResponseError, r))"

text \<open>
  EXPIRE checks the time to live before it looks for the key; a time to live that is
  not positive makes the key expire at once.
\<close>

definition r_expire :: "rkey \<Rightarrow> int \<Rightarrow> (redis, bool) io" where
  "r_expire k ttl = and_then transport (\<lambda>_ r.
     if \<not> representable (clock r) ttl then (Inl ResponseError, r)
     else case live r k of
       None \<Rightarrow> (Inr False, r)
     | Some (v, _) \<Rightarrow> (Inr True, store k v (Some (clock r + real_of_int ttl)) r))"

definition r_ttl :: "rkey \<Rightarrow> (redis, int) io" where
  "r_ttl k = and_then transport (\<lambda>_ r.
     case live r k of
       None \<Rightarrow> (Inr (- 2), r)
     | Some (_, None) \<Rightarrow> (Inr (- 1), r)
     | Some (_, Some t) \<Rightarrow> (Inr (\<lfloor>t - clock r + 1 / 2\<rfloor>), r))"

definition r_persist :: "rkey \<Rightarrow> (redis, bool) io" where
  "r_persist k = and_then transport (\<lambda>_ r.
     case live r k of
       None \<Rightarrow> (Inr False, r)
     | Some (_, None) \<Rightarrow> (Inr False, r)
     | Some (v, Some _) \<Rightarrow> (Inr True, store k v None r))"

text \<open>
  The sorted set \<^verbatim>\<open>devices:online\<close>: one score per member; ZRANGEBYSCORE takes both
  bounds inclusive and answers in the order of the scores, members of one score in the
  order of their texts (byte by byte; a member is the decimal text of a device id); a
  set that ZREM empties is removed.
\<close>

fun text_less :: "string \<Rightarrow> string \<Rightarrow> bool" where
  "text_less [] [] = False"
| "text_less [] (d # ds) = True"
| "text_less (c # cs) [] = False"
| "text_less (c # cs) (d # ds) =
     ((of_char c :: nat) < of_char d \<or> (c = d \<and> text_less cs ds))"

definition precedes :: "int \<times> real \<Rightarrow> int \<times> real \<Rightarrow> bool" where
  "precedes a b =
     (snd a < snd b \<or> (snd a = snd b \<and> text_less (repr_int (fst a)) (repr_int (fst b))))"

fun zinsert :: "int \<times> real \<Rightarrow> (int \<times> real) list \<Rightarrow> (int \<times> real) list" where
  "zinsert a [] = [a]"
| "zinsert a (b # bs) = (if precedes b a then b # zinsert a bs else a # b # bs)"

definition zorder :: "(int \<times> real) list \<Rightarrow> (int \<times> real) list" where
  "zorder z = foldr zinsert z []"

definition r_zadd :: "rkey \<Rightarrow> int \<Rightarrow> real \<Rightarrow> (redis, unit) io" where
  "r_zadd k member score = and_then transport (\<lambda>_ r.
     case live r k of
       None \<Rightarrow> (Inr (), store k (RZSet [(member, score)]) None r)
     | Some (RZSet z, ex) \<Rightarrow> (Inr (), store k (RZSet (AList.update member score z)) ex r)
     | Some (_, _) \<Rightarrow> (Inl ResponseError, r))"

definition r_zrem :: "rkey \<Rightarrow> int \<Rightarrow> (redis, unit) io" where
  "r_zrem k member = and_then transport (\<lambda>_ r.
     case live r k of
       None \<Rightarrow> (Inr (), r)
     | Some (RZSet z, ex) \<Rightarrow>
         (if AList.delete member z = [] then (Inr (), r\<lparr>db := (db r)(k := None)\<rparr>)
          else (Inr (), store k (RZSet (AList.delete member z)) ex r))
     | Some (_, _) \<Rightarrow> (Inl ResponseError, r))"

definition r_zscore :: "rkey \<Rightarrow> int \<Rightarrow> (redis, real option) io" where
  "r_zscore k member = and_then transport (\<lambda>_ r.
     case live r k of
       None \<Rightarrow> (Inr None, r)
     | Some (RZSet z, _) \<Rightarrow> (Inr (map_of z member), r)
     | Some (_, _) \<Rightarrow> (Inl ResponseError, r))"

definition r_zrangebyscore :: "rkey \<Rightarrow> real \<Rightarrow> real \<Rightarrow> (redis, int list) io" where
  "r_zrangebyscore k lo hi = and_then transport (\<lambda>_ r.
     case live r k of
       None \<Rightarrow> (Inr [], r)
     | Some (RZSet z, _) \<Rightarrow>
         (Inr (map fst (zorder (filter (\<lambda>(m, s). lo \<le> s \<and> s \<le> hi) z))), r)
     | Some (_, _) \<Rightarrow> (Inl ResponseError, r))"

section \<open>RedisCacheService (src/services/redis\_cache.py)\<close>

text \<open>
  Each method is the source's body inside its \<^verbatim>\<open>try\<close>, and the value its
  \<^verbatim>\<open>except Exception\<close> handler returns. \<open>json.dumps\<close> and \<open>json.loads\<close> of a device
  dictionary are the identity on \<open>device_info\<close>; \<open>json.loads\<close> of a text that is not a
  dictionary's raises \<open>ValueError\<close> (\<open>JSONDecodeError\<close>), \<open>int\<close> of a text that is not an
  integer's raises \<open>ValueError\<close>.
\<close>

definition json_loads :: "sval \<Rightarrow> exn + device_info" where
  "json_loads s = (case s of SDoc d \<Rightarrow> Inr d | _ \<Rightarrow> Inl ValueError)"

definition int_of_text :: "sval \<Rightarrow> exn + int" where
  "int_of_text s = (case s of SInt i \<Rightarrow> Inr i | _ \<Rightarrow> Inl ValueError)"

definition is_available :: "(redis, bool) io" where
  "is_available r = (if \<not> connected r then (Inr False, r) else try_except r_ping False r)"

definition ping :: "(redis, bool) io" where
  "ping = try_except r_ping False"

definition cache_device :: "int \<Rightarrow> device_info \<Rightarrow> int \<Rightarrow> (redis, bool) io" where
  "cache_device device_id device_data ttl =
     try_except (and_then (r_setex (KDevice device_id) ttl (SDoc device_data)) (\<lambda>_. ret True)) False"

definition get_device :: "int \<Rightarrow> (redis, device_info option) io" where
  "get_device device_id =
     try_except (and_then (r_get (KDevice device_id)) (\<lambda>data.
        case data of
          None \<Rightarrow> ret None
        | Some s \<Rightarrow> and_then (lift (json_loads s)) (\<lambda>d. ret (Some d)))) None"

definition delete_device :: "int \<Rightarrow> (redis, bool) io" where
  "delete_device device_id =
     try_except (and_then (r_delete [KDevice device_id]) (\<lambda>_. ret True)) False"

definition cache_api_key :: "string \<Rightarrow> device_info \<Rightarrow> int \<Rightarrow> (redis, bool) io" where
  "cache_api_key api_key device_data ttl =
     try_except (and_then (r_setex (KApiKey api_key) ttl (SDoc device_data)) (\<lambda>_. ret True)) False"

definition get_device_by_api_key :: "string \<Rightarrow> (redis, device_info option) io" where
  "get_device_by_api_key api_key =
     try_except (and_then (r_get (KApiKey api_key)) (\<lambda>data.
        case data of
          None \<Rightarrow> ret None
        | Some s \<Rightarrow> and_then (lift (json_loads s)) (\<lambda>d. ret (Some d)))) None"

definition invalidate_api_key :: "string \<Rightarrow> (redis, bool) io" where
  "invalidate_api_key api_key =
     try_except (and_then (r_delete [KApiKey api_key]) (\<lambda>_. ret True)) False"

definition update_last_seen :: "int \<Rightarrow> (redis, bool) io" where
  "update_last_seen device_id =
     try_except (\<lambda>r. and_then (r_set (KLastSeen device_id) (STime (clock r))) (\<lambda>_. ret True) r) False"

definition get_last_seen :: "int \<Rightarrow> (redis, sval option) io" where
  "get_last_seen device_id = try_except (r_get (KLastSeen device_id)) None"

text \<open>
  \<open>set_device_online\<close> calls \<open>self.update_last_seen\<close> inside its own \<^verbatim>\<open>try\<close> and drops
  what it returns.
\<close>

definition set_device_online :: "int \<Rightarrow> (redis, bool) io" where
  "set_device_online device_id =
     try_except (\<lambda>r. and_then (r_zadd KOnline device_id (clock r)) (\<lambda>_.
        and_then (update_last_seen device_id) (\<lambda>_. ret True)) r) False"

definition set_device_offline :: "int \<Rightarrow> (redis, bool) io" where
  "set_device_offline device_id =
     try_except (and_then (r_zrem KOnline device_id) (\<lambda>_. ret True)) False"

text \<open>\<^verbatim>\<open>if not score\<close> holds for \<open>None\<close> and for the float \<open>0.0\<close>.\<close>

definition falsy_score :: "real option \<Rightarrow> bool" where
  "falsy_score score = (case score of None \<Rightarrow> True | Some s \<Rightarrow> s = 0)"

definition is_device_online :: "int \<Rightarrow> (redis, bool) io" where
  "is_device_online device_id =
     try_except (and_then (r_zscore KOnline device_id) (\<lambda>score r.
        if falsy_score score then (Inr False, r)
        else (Inr (clock r - the score < 300), r))) False"

definition get_online_devices :: "(redis, int list) io" where
  "get_online_devices =
     try_except (\<lambda>r. r_zrangebyscore KOnline (clock r - 300) (clock r) r) []"

definition cache_latest_telemetry :: "int \<Rightarrow> (string \<times> jvalue) list \<Rightarrow> int \<Rightarrow> (redis, bool) io" where
  "cache_latest_telemetry device_id telemetry ttl =
     try_except (and_then (r_hset (KLatest device_id) telemetry) (\<lambda>_.
        and_then (r_expire (KLatest device_id) ttl) (\<lambda>_. ret True))) False"

text \<open>
  \<open>float(v)\<close> of a hash field: the text of a float gives the float back
  (\<open>float(repr(x)) = x\<close>); for any other text, the decimal text of an \<open>int\<close> among them,
  Python's \<open>float\<close> decides, which the embedding takes as the parameter \<open>pf\<close> (\<open>None\<close>:
  \<open>float\<close> raises \<open>ValueError\<close>).
\<close>

definition float_of_field :: "(string \<Rightarrow> real option) \<Rightarrow> hval \<Rightarrow> exn + real" where
  "float_of_field pf v =
     (case v of
        HNum x \<Rightarrow> Inr x
      | HStr s \<Rightarrow> (case pf s of None \<Rightarrow> Inl ValueError | Some x \<Rightarrow> Inr x))"

fun float_fields :: "(string \<Rightarrow> real option) \<Rightarrow> (string \<times> hval) list \<Rightarrow> exn + (string \<times> real) list" where
  "float_fields pf [] = Inr []"
| "float_fields pf ((k, v) # kvs) =
     (case float_of_field pf v of
        Inl e \<Rightarrow> Inl e
      | Inr x \<Rightarrow> (case float_fields pf kvs of Inl e \<Rightarrow> Inl e | Inr xs \<Rightarrow> Inr ((k, x) # xs)))"

definition get_latest_telemetry :: "(string \<Rightarrow> real option) \<Rightarrow> int \<Rightarrow> (redis, (string \<times> real) list option) io" where
  "get_latest_telemetry pf device_id =
     try_except (and_then (r_hgetall (KLatest device_id)) (\<lambda>data.
        if data = [] then ret None
        else and_then (lift (float_fields pf data)) (\<lambda>xs. ret (Some xs)))) None"

definition update_measurement :: "int \<Rightarrow> string \<Rightarrow> real \<Rightarrow> (redis, bool) io" where
  "update_measurement device_id measurement_name x =
     try_except (and_then (r_hset (KLatest device_id) [(measurement_name, JNum x)]) (\<lambda>_. ret True)) False"

text \<open>\<^verbatim>\<open>float(value) if value else None\<close>: the empty text is falsy.\<close>

definition truthy_field :: "hval \<Rightarrow> bool" where
  "truthy_field v = (case v of HNum _ \<Rightarrow> True | HStr s \<Rightarrow> s \<noteq> [])"

definition get_measurement :: "(string \<Rightarrow> real option) \<Rightarrow> int \<Rightarrow> string \<Rightarrow> (redis, real option) io" where
  "get_measurement pf device_id measurement_name =
     try_except (and_then (r_hget (KLatest device_id) measurement_name) (\<lambda>field.
        case field of
          None \<Rightarrow> ret None
        | Some v \<Rightarrow>
            (if truthy_field v then and_then (lift (float_of_field pf v)) (\<lambda>x. ret (Some x))
             else ret None))) None"

definition check_rate_limit :: "string \<Rightarrow> int \<Rightarrow> int \<Rightarrow> (redis, bool) io" where
  "check_rate_limit key max_requests window =
     try_except (and_then (r_get (KRateLimit key)) (\<lambda>current.
        case current of
          None \<Rightarrow> and_then (r_setex (KRateLimit key) window (SInt 1)) (\<lambda>_. ret True)
        | Some c \<Rightarrow> and_then (lift (int_of_text c)) (\<lambda>count.
            if count \<ge> max_requests then ret False
            else and_then (r_incr (KRateLimit key)) (\<lambda>_. ret True)))) True"

definition get_rate_limit_remaining :: "string \<Rightarrow> int \<Rightarrow> (redis, int) io" where
  "get_rate_limit_remaining key max_requests =
     try_except (and_then (r_get (KRateLimit key)) (\<lambda>current.
        case current of
          None \<Rightarrow> ret max_requests
        | Some c \<Rightarrow> and_then (lift (int_of_text c)) (\<lambda>count. ret (max 0 (max_requests - count)))))
       max_requests"

definition invalidate_device_cache :: "int \<Rightarrow> (redis, bool) io" where
  "invalidate_device_cache device_id =
     try_except (and_then (r_delete [KDevice device_id, KLatest device_id, KLastSeen device_id, KAlerts device_id]) (\<lambda>_.
        and_then (r_zrem KOnline device_id) (\<lambda>_. ret True))) False"

definition set_ttl :: "rkey \<Rightarrow> int \<Rightarrow> (redis, bool) io" where
  "set_ttl key ttl = try_except (r_expire key ttl) False"

definition get_ttl :: "rkey \<Rightarrow> (redis, int) io" where
  "get_ttl key = try_except (r_ttl key) (- 1)"

definition persist :: "rkey \<Rightarrow> (redis, bool) io" where
  "persist key = try_except (r_persist key) False"

section \<open>Python's \<open>int\<close>, \<open>timedelta\<close> and \<open>datetime\<close>\<close>

text \<open>
  \<open>int(s)\<close> for a text: surrounding whitespace is dropped, one sign is allowed, then
  decimal digits with single underscores between them; anything else raises
  \<open>ValueError\<close>, and so do more than 4300 digits (the limit of Python 3.11 and of the
  later releases of 3.7 to 3.10). A text of the embedding is a list of 8-bit
  characters, Latin-1: there the whitespace that \<open>int\<close> drops is the characters 9 to
  13 and 32 and, as \<open>int\<close> turns Unicode whitespace beyond ASCII into blanks, 133 and
  160 (the separators 28 to 31 are whitespace for \<open>str.isspace\<close> and not for \<open>int\<close>);
  and the only decimal digits are 0 to 9.
\<close>

definition is_space :: "char \<Rightarrow> bool" where
  "is_space c = (of_char c \<in> set [9, 10, 11, 12, 13, 32, 133, 160 :: nat])"

definition is_digit :: "char \<Rightarrow> bool" where
  "is_digit c = ((48 :: nat) \<le> of_char c \<and> of_char c \<le> (57 :: nat))"

definition strip :: "string \<Rightarrow> string" where
  "strip s = rev (dropWhile is_space (rev (dropWhile is_space s)))"

fun well_grouped :: "string \<Rightarrow> bool" where
  "well_grouped [] = False"
| "well_grouped [c] = is_digit c"
| "well_grouped (c # d # cs) =
     (is_digit c \<and> (if d = CHR ''_'' then well_grouped cs else well_grouped (d # cs)))"

definition digits_value :: "string \<Rightarrow> int" where
  "digits_value s = foldl (\<lambda>acc c. if is_digit c then 10 * acc + (int (of_char c) - 48) else acc) 0 s"

definition py_int :: "string \<Rightarrow> exn + int" where
  "py_int s =
     (let t = strip s;
          negative = (t \<noteq> [] \<and> hd t = CHR ''-'');
          digits = (if t \<noteq> [] \<and> (hd t = CHR ''-'' \<or> hd t = CHR ''+'') then tl t else t)
      in if well_grouped digits \<and> length (filter is_digit digits) \<le> 4300
         then Inr (if negative then - digits_value digits else digits_value digits)
         else Inl ValueError)"

definition bind_res :: "exn + 'a \<Rightarrow> ('a \<Rightarrow> exn + 'b) \<Rightarrow> exn + 'b" where
  "bind_res x f = (case x of Inl e \<Rightarrow> Inl e | Inr v \<Rightarrow> f v)"

text \<open>
  An instant is a number of seconds since the epoch. \<open>timedelta\<close> holds at most
  999999999 days in either direction and \<open>datetime\<close> the years 1 to 9999; both raise
  \<open>OverflowError\<close> outside.
\<close>

definition timedelta :: "int \<Rightarrow> int \<Rightarrow> exn + real" where
  "timedelta secs n =
     (if - 999999999 \<le> (secs * n) div 86400 \<and> (secs * n) div 86400 \<le> 999999999
      then Inr (real_of_int (secs * n)) else Inl OverflowError)"

definition datetime_sub :: "real \<Rightarrow> real \<Rightarrow> exn + real" where
  "datetime_sub t d =
     (if - 62135596800 \<le> t - d \<and> t - d < 253402300800 then Inr (t - d) else Inl OverflowError)"

definition endswith :: "string \<Rightarrow> char \<Rightarrow> bool" where
  "endswith s c = (s \<noteq> [] \<and> last s = c)"

text \<open>\<^verbatim>\<open>s.replace('Z', '+00:00')\<close> replaces every \<open>Z\<close>.\<close>

definition replace_Z :: "string \<Rightarrow> string" where
  "replace_Z s = concat (map (\<lambda>c. if c = CHR ''Z'' then ''+00:00'' else [c]) s)"

section \<open>CassandraTelemetryService (src/services/cassandra\_telemetry.py)\<close>

text \<open>
  \<open>session\<close> is \<^verbatim>\<open>self.session is not None\<close>. A table is the list of its rows, a row
  the primary key and the other columns; an INSERT with the key of a row replaces it.
\<close>

record cassandra =
  session :: bool
  cfaults :: "bool list"
  device_data :: "((int \<times> real \<times> string) \<times> (real \<times> (string \<times> string) list)) list"
  latest_data :: "((int \<times> string) \<times> (real \<times> real)) list"
  user_data :: "((int \<times> real \<times> int \<times> string) \<times> real) list"

definition execute :: "(cassandra, unit) io" where
  "execute c =
     (if \<not> session c then (Inl AttributeError, c)
      else case next_call (cfaults c) of
          (True, rest) \<Rightarrow> (Inl DriverError, c\<lparr>cfaults := rest\<rparr>)
        | (False, rest) \<Rightarrow> (Inr (), c\<lparr>cfaults := rest\<rparr>))"

definition insert_device_data :: "int \<Rightarrow> real \<Rightarrow> string \<Rightarrow> real \<Rightarrow> (string \<times> string) list \<Rightarrow> (cassandra, unit) io" where
  "insert_device_data d ts name x md = and_then execute (\<lambda>_ c.
     (Inr (), c\<lparr>device_data := AList.update (d, ts, name) (x, md) (device_data c)\<rparr>))"

definition insert_latest_data :: "int \<Rightarrow> string \<Rightarrow> real \<Rightarrow> real \<Rightarrow> (cassandra, unit) io" where
  "insert_latest_data d name ts x = and_then execute (\<lambda>_ c.
     (Inr (), c\<lparr>latest_data := AList.update (d, name) (ts, x) (latest_data c)\<rparr>))"

definition insert_user_data :: "int \<Rightarrow> real \<Rightarrow> int \<Rightarrow> string \<Rightarrow> real \<Rightarrow> (cassandra, unit) io" where
  "insert_user_data u ts d name x = and_then execute (\<lambda>_ c.
     (Inr (), c\<lparr>user_data := AList.update (u, ts, d, name) x (user_data c)\<rparr>))"

text \<open>
  The loop of \<open>write_telemetry\<close> over \<^verbatim>\<open>data.items()\<close>: a value that is not an \<open>int\<close> or
  a \<open>float\<close>, or that is a \<open>bool\<close>, is skipped (\<open>numeric_value\<close> is \<open>None\<close>); of the others
  \<^verbatim>\<open>float(value)\<close> is written, which rounds an \<open>int\<close> and raises for a huge one, inside
  the \<^verbatim>\<open>try\<close>.
\<close>

definition numeric_value :: "jvalue \<Rightarrow> (exn + real) option" where
  "numeric_value v =
     (case v of JInt i \<Rightarrow> Some (float_of_int i) | JNum x \<Rightarrow> Some (Inr x) | _ \<Rightarrow> None)"

fun write_rows :: "int \<Rightarrow> real \<Rightarrow> (string \<times> string) list \<Rightarrow> (string \<times> jvalue) list \<Rightarrow> (cassandra, unit) io" where
  "write_rows d ts md [] = ret ()"
| "write_rows d ts md ((name, v) # rest) =
     (case numeric_value v of
        None \<Rightarrow> write_rows d ts md rest
      | Some conversion \<Rightarrow>
          and_then (lift conversion) (\<lambda>x.
          and_then (insert_device_data d ts name x md) (\<lambda>_.
          and_then (insert_latest_data d name ts x) (\<lambda>_. write_rows d ts md rest))))"

fun write_user_rows :: "int \<Rightarrow> int \<Rightarrow> real \<Rightarrow> (string \<times> jvalue) list \<Rightarrow> (cassandra, unit) io" where
  "write_user_rows u d ts [] = ret ()"
| "write_user_rows u d ts ((name, v) # rest) =
     (case numeric_value v of
        None \<Rightarrow> write_user_rows u d ts rest
      | Some conversion \<Rightarrow>
          and_then (lift conversion) (\<lambda>x.
          and_then (insert_user_data u ts d name x) (\<lambda>_. write_user_rows u d ts rest)))"

text \<open>\<^verbatim>\<open>not device_id\<close> holds for \<open>None\<close> and for 0; \<^verbatim>\<open>not data\<close> for the empty dictionary.\<close>

definition falsy_id :: "int option \<Rightarrow> bool" where
  "falsy_id device_id = (case device_id of None \<Rightarrow> True | Some i \<Rightarrow> i = 0)"

definition or_now :: "real option \<Rightarrow> real \<Rightarrow> real" where
  "or_now timestamp now = (case timestamp of None \<Rightarrow> now | Some t \<Rightarrow> t)"

definition write_telemetry :: "real \<Rightarrow> int option \<Rightarrow> (string \<times> jvalue) list \<Rightarrow> real option \<Rightarrow> (string \<times> string) list option \<Rightarrow> (cassandra, bool) io" where
  "write_telemetry now device_id data timestamp metadata =
     (if falsy_id device_id \<or> data = [] then ret False
      else try_except
        (and_then (write_rows (the device_id) (or_now timestamp now)
                     (case metadata of None \<Rightarrow> [] | Some m \<Rightarrow> m) data) (\<lambda>_. ret True)) False)"

definition write_telemetry_with_user :: "real \<Rightarrow> int option \<Rightarrow> int \<Rightarrow> (string \<times> jvalue) list \<Rightarrow> real option \<Rightarrow> (cassandra, bool) io" where
  "write_telemetry_with_user now device_id user_id data timestamp =
     and_then (write_telemetry now device_id data timestamp None) (\<lambda>written.
       if \<not> written then ret False
       else try_except
         (and_then (write_user_rows user_id (the device_id) (or_now timestamp now) data) (\<lambda>_. ret True)) False)"

definition select_latest :: "int \<Rightarrow> (cassandra, (string \<times> real) list) io" where
  "select_latest d = and_then execute (\<lambda>_ c.
     (Inr (map (\<lambda>((_, name), (_, x)). (name, x)) (filter (\<lambda>((d', _), _). d' = d) (latest_data c))), c))"

definition cassandra_get_latest_telemetry :: "int \<Rightarrow> (cassandra, (string \<times> real) list option) io" where
  "cassandra_get_latest_telemetry device_id =
     try_except (and_then (select_latest device_id) (\<lambda>measurements.
        ret (if measurements = [] then None else Some measurements))) None"

definition cassandra_is_available :: "(cassandra, bool) io" where
  "cassandra_is_available c =
     (if \<not> session c then (Inr False, c) else try_except (and_then execute (\<lambda>_. ret True)) False c)"

text \<open>
  \<open>_parse_time_range\<close>. \<open>datetime.fromisoformat\<close> is Python's; the embedding takes it as
  the parameter \<open>fromiso\<close> (\<open>None\<close>: it raises \<open>ValueError\<close>). The conversions of the four
  relative forms stand outside the \<^verbatim>\<open>try\<close> of the source.
\<close>

definition relative :: "int \<Rightarrow> real \<Rightarrow> string \<Rightarrow> exn + real" where
  "relative secs now digits =
     bind_res (py_int digits) (\<lambda>n. bind_res (timedelta secs n) (\<lambda>d. datetime_sub now d))"

definition iso_or_default :: "(string \<Rightarrow> real option) \<Rightarrow> real \<Rightarrow> string \<Rightarrow> exn + real" where
  "iso_or_default fromiso now s =
     (case fromiso (replace_Z s) of
        Some t \<Rightarrow> Inr t
      | None \<Rightarrow> bind_res (timedelta 3600 1) (\<lambda>d. datetime_sub now d))"

definition parse_time_range :: "(string \<Rightarrow> real option) \<Rightarrow> real \<Rightarrow> string \<Rightarrow> exn + real" where
  "parse_time_range fromiso now time_str =
     (if time_str = [] \<or> time_str = ''now'' then Inr now
      else if hd time_str = CHR ''-'' then
        (let t = tl time_str in
           if endswith t CHR ''h'' then relative 3600 now (butlast t)
           else if endswith t CHR ''d'' then relative 86400 now (butlast t)
           else if endswith t CHR ''w'' then relative 604800 now (butlast t)
           else if endswith t CHR ''m'' then relative 60 now (butlast t)
           else iso_or_default fromiso now t)
      else iso_or_default fromiso now time_str)"

section \<open>MongoDBService.log\_event (src/services/mongodb\_service.py)\<close>

record event =
  ev_type :: string
  ev_device_id :: int
  ev_user_id :: int
  ev_timestamp :: real
  ev_measurements :: "string list"
  ev_count :: nat

record mongo =
  mongo_db :: bool
  mfaults :: "bool list"
  event_logs :: "event list"

definition insert_one :: "event \<Rightarrow> (mongo, nat) io" where
  "insert_one ev m =
     (if \<not> mongo_db m then (Inl AttributeError, m)
      else case next_call (mfaults m) of
          (True, rest) \<Rightarrow> (Inl DriverError, m\<lparr>mfaults := rest\<rparr>)
        | (False, rest) \<Rightarrow>
            (Inr (length (event_logs m)), m\<lparr>mfaults := rest, event_logs := event_logs m @ [ev]\<rparr>))"

definition log_event :: "event \<Rightarrow> (mongo, nat option) io" where
  "log_event ev = try_except (and_then (insert_one ev) (\<lambda>i. ret (Some i))) None"

section \<open>The Device table\<close>

text \<open>
  Modelled from the spec: the \<open>Device\<close> model class (\<open>src.models\<close>) is not among the
  sources. The spec describes the identity store as the owner of
  \<open>{deviceId, userId, apiKey, status}\<close>, queried by id and by API key; the route also
  calls \<open>device.update_last_seen()\<close>. In the spec's words a lookup answers with the
  identity or with not-found, so the two queries return the first matching row or
  \<open>None\<close>; \<open>update_last_seen\<close>, of which the sources hold the call only, records the
  time of the call on the device's row. None of the three raises here.
\<close>

record device =
  dev_id :: int
  dev_user_id :: int
  dev_api_key :: string
  dev_status :: string
  dev_last_seen :: "real option"

type_synonym postgres = "device list"

definition query_get :: "int \<Rightarrow> (postgres, device option) io" where
  "query_get i p = (Inr (find (\<lambda>d. dev_id d = i) p), p)"

definition query_by_api_key :: "string \<Rightarrow> (postgres, device option) io" where
  "query_by_api_key k p = (Inr (find (\<lambda>d. dev_api_key d = k) p), p)"

definition touch :: "real \<Rightarrow> int \<Rightarrow> device \<Rightarrow> device" where
  "touch now i d = (if dev_id d = i then d\<lparr>dev_last_seen := Some now\<rparr> else d)"

definition device_update_last_seen :: "real \<Rightarrow> int \<Rightarrow> (postgres, unit) io" where
  "device_update_last_seen now i p = (Inr (), map (touch now i) p)"

section \<open>The telemetry routes (src/routes/telemetry\_postgres.py)\<close>

text \<open>
  The module holds one instance of each service; \<open>world\<close> is their states together.
  A request is the \<^verbatim>\<open>X-API-Key\<close> header and what \<^verbatim>\<open>request.get_json()\<close> makes of the
  body: it raises for a body that is missing, not declared as JSON or malformed
  (\<open>Unreadable\<close>); it returns a value that Python takes for false (\<open>Falsy\<close>: \<open>null\<close>, an
  empty dictionary or list, 0, the empty string, \<open>false\<close>), another value that is not a
  dictionary (\<open>NotObject\<close>), or a dictionary with an entry (\<open>Document\<close>). Of a dictionary
  the routes read \<open>data\<close> (absent: the empty dictionary) and \<open>timestamp\<close>, a string as
  the route's schema has it.
\<close>

record world =
  redis_service :: redis
  cassandra_service :: cassandra
  mongodb_service :: mongo
  device_table :: postgres

definition on_redis :: "(redis, 'a) io \<Rightarrow> (world, 'a) io" where
  "on_redis m w = (case m (redis_service w) of (x, r) \<Rightarrow> (x, w\<lparr>redis_service := r\<rparr>))"

definition on_cassandra :: "(cassandra, 'a) io \<Rightarrow> (world, 'a) io" where
  "on_cassandra m w = (case m (cassandra_service w) of (x, c) \<Rightarrow> (x, w\<lparr>cassandra_service := c\<rparr>))"

definition on_mongo :: "(mongo, 'a) io \<Rightarrow> (world, 'a) io" where
  "on_mongo m w = (case m (mongodb_service w) of (x, c) \<Rightarrow> (x, w\<lparr>mongodb_service := c\<rparr>))"

definition on_postgres :: "(postgres, 'a) io \<Rightarrow> (world, 'a) io" where
  "on_postgres m w = (case m (device_table w) of (x, c) \<Rightarrow> (x, w\<lparr>device_table := c\<rparr>))"

definition utcnow :: "world \<Rightarrow> real" where
  "utcnow w = clock (redis_service w)"

record payload =
  p_data :: "(string \<times> jvalue) list"
  p_timestamp :: "string option"

datatype body = Unreadable | Falsy | NotObject | Document payload

record request =
  api_key_header :: "string option"
  json_body :: body

datatype content = Stored int real | LatestData int "(string \<times> real) list" | Message string

datatype reply = Reply nat content

fun status :: "reply \<Rightarrow> nat" where
  "status (Reply code _) = code"

definition info_of :: "device \<Rightarrow> device_info" where
  "info_of dev = \<lparr>di_device_id = dev_id dev, di_user_id = dev_user_id dev, di_status = dev_status dev\<rparr>"

text \<open>Lines 102 to 115 of \<open>store_telemetry\<close>: the device of an API key.\<close>

definition resolve_device :: "string \<Rightarrow> (world, device option) io" where
  "resolve_device api_key =
     and_then (on_redis (get_device_by_api_key api_key)) (\<lambda>cached_device.
       case cached_device of
         Some info \<Rightarrow> on_postgres (query_get (di_device_id info))
       | None \<Rightarrow>
           and_then (on_postgres (query_by_api_key api_key)) (\<lambda>device.
             case device of
               None \<Rightarrow> ret None
             | Some dev \<Rightarrow>
                 and_then (on_redis (cache_api_key api_key (info_of dev) 3600)) (\<lambda>_. ret (Some dev))))"

text \<open>
  Lines 128 to 139: \<^verbatim>\<open>if timestamp_str:\<close> skips \<open>None\<close> and the empty string; only
  \<open>ValueError\<close> is caught there, and \<open>fromisoformat\<close> of a string raises nothing else.
\<close>

definition resolve_timestamp :: "(string \<Rightarrow> real option) \<Rightarrow> string option \<Rightarrow> real \<Rightarrow> exn + real" where
  "resolve_timestamp fromiso timestamp_str now =
     (case timestamp_str of
        None \<Rightarrow> Inr now
      | Some s \<Rightarrow>
          if s = [] then Inr now
          else (case fromiso (if endswith s CHR ''Z'' then replace_Z s else s) of
                  None \<Rightarrow> Inl ValueError
                | Some t \<Rightarrow> Inr t))"

text \<open>Lines 151 to 153, the three cache updates after the write.\<close>

definition secondary_updates :: "int \<Rightarrow> (string \<times> jvalue) list \<Rightarrow> (redis, unit) io" where
  "secondary_updates device_id telemetry_data =
     and_then (cache_latest_telemetry device_id telemetry_data 600) (\<lambda>_.
     and_then (set_device_online device_id) (\<lambda>_.
     and_then (update_last_seen device_id) (\<lambda>_. ret ())))"

definition submitted_event :: "device \<Rightarrow> real \<Rightarrow> (string \<times> jvalue) list \<Rightarrow> event" where
  "submitted_event dev timestamp telemetry_data =
     \<lparr>ev_type = ''telemetry.submitted'', ev_device_id = dev_id dev, ev_user_id = dev_user_id dev,
      ev_timestamp = timestamp, ev_measurements = map fst telemetry_data,
      ev_count = length telemetry_data\<rparr>"

text \<open>Lines 117 to 187: the submission of a resolved device.\<close>

definition store_resolved :: "(string \<Rightarrow> real option) \<Rightarrow> device option \<Rightarrow> payload \<Rightarrow> (world, reply) io" where
  "store_resolved fromiso device data =
     (case device of
        None \<Rightarrow> ret (Reply 401 (Message ''Invalid API key''))
      | Some dev \<Rightarrow>
          if p_data data = [] then ret (Reply 400 (Message ''Telemetry data is required''))
          else (\<lambda>w.
            case resolve_timestamp fromiso (p_timestamp data) (utcnow w) of
              Inl _ \<Rightarrow> (Inr (Reply 400 (Message ''Invalid timestamp format. Use ISO 8601 format.'')), w)
            | Inr timestamp \<Rightarrow>
                and_then (on_cassandra (write_telemetry_with_user (utcnow w) (Some (dev_id dev))
                            (dev_user_id dev) (p_data data) (Some timestamp))) (\<lambda>cassandra_success.
                and_then (if cassandra_success
                          then on_redis (secondary_updates (dev_id dev) (p_data data))
                          else ret ()) (\<lambda>_.
                and_then (on_postgres (device_update_last_seen (utcnow w) (dev_id dev))) (\<lambda>_.
                and_then (try_except (on_mongo (log_event (submitted_event dev timestamp (p_data data)))) None) (\<lambda>_.
                ret (if cassandra_success then Reply 201 (Stored (dev_id dev) timestamp)
                     else Reply 500 (Message ''Failed to store telemetry data'')))))) w))"

text \<open>
  Lines 91 to 115: the body is read first; the API key and the device come next, and
  only then \<^verbatim>\<open>data.get\<close>, which raises \<open>AttributeError\<close> for a body that is no
  dictionary.
\<close>

definition with_device :: "request \<Rightarrow> (device option \<Rightarrow> (world, reply) io) \<Rightarrow> (world, reply) io" where
  "with_device req rest =
     (case api_key_header req of
        None \<Rightarrow> ret (Reply 401 (Message ''API key required''))
      | Some api_key \<Rightarrow>
          if api_key = [] then ret (Reply 401 (Message ''API key required''))
          else and_then (resolve_device api_key) rest)"

definition store_telemetry_body :: "(string \<Rightarrow> real option) \<Rightarrow> request \<Rightarrow> (world, reply) io" where
  "store_telemetry_body fromiso req =
     (case json_body req of
        Unreadable \<Rightarrow> throw HTTPException
      | Falsy \<Rightarrow> ret (Reply 400 (Message ''No data provided''))
      | NotObject \<Rightarrow>
          with_device req (\<lambda>device.
            case device of
              None \<Rightarrow> ret (Reply 401 (Message ''Invalid API key''))
            | Some dev \<Rightarrow> throw AttributeError)
      | Document data \<Rightarrow> with_device req (\<lambda>device. store_resolved fromiso device data))"

text \<open>The route: its body inside \<^verbatim>\<open>try\<close>, and the catch-all handler of line 189.\<close>

definition store_telemetry :: "(string \<Rightarrow> real option) \<Rightarrow> request \<Rightarrow> world \<Rightarrow> reply \<times> world" where
  "store_telemetry fromiso req w =
     (case store_telemetry_body fromiso req w of
        (Inr rep, w') \<Rightarrow> (rep, w')
      | (Inl e, w') \<Rightarrow> (Reply 500 (Message ''Internal server error''), w'))"

definition mismatch :: "int option \<Rightarrow> int \<Rightarrow> bool" where
  "mismatch device_id i = (case device_id of None \<Rightarrow> False | Some d \<Rightarrow> i \<noteq> d)"

definition authenticate_by_key :: "string \<Rightarrow> int option \<Rightarrow> (world, reply + device) io" where
  "authenticate_by_key api_key device_id =
     and_then (on_postgres (query_by_api_key api_key)) (\<lambda>device.
       case device of
         None \<Rightarrow> ret (Inl (Reply 401 (Message ''Invalid API key'')))
       | Some dev \<Rightarrow>
           and_then (on_redis (cache_api_key api_key (info_of dev) 3600)) (\<lambda>_.
             if mismatch device_id (dev_id dev)
             then ret (Inl (Reply 403 (Message ''Forbidden: device mismatch'')))
             else ret (Inr dev)))"

definition get_authenticated_device :: "request \<Rightarrow> int option \<Rightarrow> (world, reply + device) io" where
  "get_authenticated_device req device_id =
     (case api_key_header req of
        None \<Rightarrow> ret (Inl (Reply 401 (Message ''API key required'')))
      | Some api_key \<Rightarrow>
          if api_key = [] then ret (Inl (Reply 401 (Message ''API key required'')))
          else and_then (on_redis (get_device_by_api_key api_key)) (\<lambda>cached_device.
            case cached_device of
              None \<Rightarrow> authenticate_by_key api_key device_id
            | Some info \<Rightarrow>
                if mismatch device_id (di_device_id info)
                then ret (Inl (Reply 403 (Message ''Forbidden: device mismatch'')))
                else and_then (on_postgres (query_get (di_device_id info))) (\<lambda>device.
                  case device of
                    Some dev \<Rightarrow> ret (Inr dev)
                  | None \<Rightarrow> authenticate_by_key api_key device_id)))"

text \<open>\<^verbatim>\<open>not latest_data\<close> holds for \<open>None\<close> and for the empty dictionary.\<close>

definition no_data :: "(string \<times> real) list option \<Rightarrow> bool" where
  "no_data latest = (case latest of None \<Rightarrow> True | Some xs \<Rightarrow> xs = [])"

definition as_numbers :: "(string \<times> real) list \<Rightarrow> (string \<times> jvalue) list" where
  "as_numbers xs = map (\<lambda>(k, x). (k, JNum x)) xs"

definition read_through :: "(string \<Rightarrow> real option) \<Rightarrow> int \<Rightarrow> (world, (string \<times> real) list option) io" where
  "read_through pf device_id =
     and_then (on_redis (get_latest_telemetry pf device_id)) (\<lambda>cached.
       if no_data cached
       then and_then (on_cassandra (cassandra_get_latest_telemetry device_id)) (\<lambda>latest_data.
              if no_data latest_data then ret latest_data
              else and_then (on_redis (cache_latest_telemetry device_id (as_numbers (the latest_data)) 600))
                     (\<lambda>_. ret latest_data))
       else ret cached)"

text \<open>
  \<open>get_device_latest_telemetry\<close>: the authentication stands before the \<^verbatim>\<open>try\<close>, so what
  it raises leaves the route; the rest is inside, with the catch-all handler.
\<close>

definition get_device_latest_telemetry :: "(string \<Rightarrow> real option) \<Rightarrow> request \<Rightarrow> int \<Rightarrow> (world, reply) io" where
  "get_device_latest_telemetry pf req device_id =
     and_then (get_authenticated_device req (Some device_id)) (\<lambda>auth.
       case auth of
         Inl err \<Rightarrow> ret err
       | Inr device \<Rightarrow>
           try_except
             (and_then (read_through pf device_id) (\<lambda>latest_data.
              and_then (on_cassandra cassandra_is_available) (\<lambda>_.
                ret (if no_data latest_data then Reply 404 (Message ''No telemetry data found'')
                     else Reply 200 (LatestData device_id (the latest_data))))))
             (Reply 500 (Message ''Internal server error'')))"

section \<open>Scenarios\<close>

text \<open>
  Concrete states and requests for the examples below: a reachable cache, store and
  event log without data, one registered device, and the clock at \<open>t\<close>. \<open>sample_float\<close>
  and \<open>sample_fromiso\<close> agree with Python's \<open>float\<close> and \<open>datetime.fromisoformat\<close> on
  the texts the examples use (\<open>float("ok")\<close> and \<open>fromisoformat("yesterday")\<close> raise
  \<open>ValueError\<close>).
\<close>

definition healthy_redis :: "real \<Rightarrow> redis" where
  "healthy_redis t = \<lparr>connected = True, faults = [], clock = t, db = (\<lambda>_. None)\<rparr>"

definition empty_cassandra :: cassandra where
  "empty_cassandra = \<lparr>session = True, cfaults = [], device_data = [], latest_data = [], user_data = []\<rparr>"

definition empty_mongo :: mongo where
  "empty_mongo = \<lparr>mongo_db = True, mfaults = [], event_logs = []\<rparr>"

definition sensor :: device where
  "sensor = \<lparr>dev_id = 7, dev_user_id = 3, dev_api_key = ''k7'', dev_status = ''active'',
     dev_last_seen = None\<rparr>"

definition fresh_world :: "real \<Rightarrow> world" where
  "fresh_world t = \<lparr>redis_service = healthy_redis t, cassandra_service = empty_cassandra,
     mongodb_service = empty_mongo, device_table = [sensor]\<rparr>"

definition submission :: "(string \<times> jvalue) list \<Rightarrow> string option \<Rightarrow> request" where
  "submission data ts = \<lparr>api_key_header = Some ''k7'',
     json_body = Document \<lparr>p_data = data, p_timestamp = ts\<rparr>\<rparr>"

definition query :: request where
  "query = \<lparr>api_key_header = Some ''k7'', json_body = Unreadable\<rparr>"

definition sample_float :: "string \<Rightarrow> real option" where
  "sample_float = map_of [(''42'', 42), (''12.5'', 25 / 2), (''50'', 50),
     (''9007199254740993'', 9007199254740992)]"

definition sample_fromiso :: "string \<Rightarrow> real option" where
  "sample_fromiso = map_of [(''2024-01-01T00:00:00+00:00'', 1704067200)]"

text \<open>Time passes: the clock moves on by \<open>d\<close> seconds and nothing else changes.\<close>

definition elapse :: "real \<Rightarrow> redis \<Rightarrow> redis" where
  "elapse d r = r\<lparr>clock := clock r + d\<rparr>"

section \<open>Notions of the specification\<close>

text \<open>The numeric subset of a measurement map: its entries with an \<open>int\<close> or a \<open>float\<close>.\<close>

fun numeric_subset :: "(string \<times> jvalue) list \<Rightarrow> (string \<times> real) list" where
  "numeric_subset [] = []"
| "numeric_subset ((k, v) # kvs) =
     (case v of
        JInt i \<Rightarrow> (k, real_of_int i) # numeric_subset kvs
      | JNum x \<Rightarrow> (k, x) # numeric_subset kvs
      | _ \<Rightarrow> numeric_subset kvs)"

text \<open>The presence record of a device: its score in \<^verbatim>\<open>devices:online\<close>, if any.\<close>

definition presence :: "redis \<Rightarrow> int \<Rightarrow> real option" where
  "presence r device_id =
     (case live r KOnline of Some (RZSet z, _) \<Rightarrow> map_of z device_id | _ \<Rightarrow> None)"

text \<open>
  A cache that answers: the client is connected and no call to come fails. A cache
  that is down: the next command raises. A transport error during a call: the client
  was not connected, or one of the outcomes the call used up was a failure.
\<close>

definition healthy :: "redis \<Rightarrow> bool" where
  "healthy r = (connected r \<and> faults r = [])"

definition down :: "redis \<Rightarrow> bool" where
  "down r = (\<not> connected r \<or> fst (next_call (faults r)))"

definition transport_error :: "redis \<Rightarrow> redis \<Rightarrow> bool" where
  "transport_error r r' =
     (\<not> connected r \<or> True \<in> set (take (length (faults r) - length (faults r')) (faults r)))"

text \<open>Successive calls of \<open>check_rate_limit\<close> at the given instants; \<open>True\<close>: permitted.\<close>

fun calls :: "string \<Rightarrow> int \<Rightarrow> int \<Rightarrow> real list \<Rightarrow> redis \<Rightarrow> bool list \<times> redis" where
  "calls key n w [] r = ([], r)"
| "calls key n w (t # ts) r =
     (case check_rate_limit key n w (r\<lparr>clock := t\<rparr>) of
        (res, r') \<Rightarrow> (case calls key n w ts r' of (bs, r'') \<Rightarrow> ((res = Inr True) # bs, r'')))"

text \<open>The operations of the cache layer's contract, and what each returns on failure.\<close>

datatype cache_call =
    CacheDevice int device_info int | GetDevice int | DeleteDevice int
  | CacheApiKey string device_info int | GetDeviceByApiKey string | InvalidateApiKey string
  | SetDeviceOnline int | SetDeviceOffline int | IsDeviceOnline int | GetOnlineDevices
  | UpdateLastSeen int | GetLastSeen int
  | CacheLatestTelemetry int "(string \<times> jvalue) list" int | GetLatestTelemetry int
  | UpdateMeasurement int string real | GetMeasurement int string
  | CheckRateLimit string int int | GetRateLimitRemaining string int
  | InvalidateDeviceCache int | SetTtl rkey int | GetTtl rkey | Persist rkey
  | IsAvailable | Ping

datatype answer = ABool bool | AInfo "device_info option" | AIds "int list"
  | AText "sval option" | ASnapshot "(string \<times> real) list option" | ANumber "real option"
  | AInt int

fun perform :: "(string \<Rightarrow> real option) \<Rightarrow> cache_call \<Rightarrow> (redis, answer) io" where
  "perform pf (CacheDevice i d t) = and_then (cache_device i d t) (\<lambda>b. ret (ABool b))"
| "perform pf (GetDevice i) = and_then (get_device i) (\<lambda>x. ret (AInfo x))"
| "perform pf (DeleteDevice i) = and_then (delete_device i) (\<lambda>b. ret (ABool b))"
| "perform pf (CacheApiKey k d t) = and_then (cache_api_key k d t) (\<lambda>b. ret (ABool b))"
| "perform pf (GetDeviceByApiKey k) = and_then (get_device_by_api_key k) (\<lambda>x. ret (AInfo x))"
| "perform pf (InvalidateApiKey k) = and_then (invalidate_api_key k) (\<lambda>b. ret (ABool b))"
| "perform pf (SetDeviceOnline i) = and_then (set_device_online i) (\<lambda>b. ret (ABool b))"
| "perform pf (SetDeviceOffline i) = and_then (set_device_offline i) (\<lambda>b. ret (ABool b))"
| "perform pf (IsDeviceOnline i) = and_then (is_device_online i) (\<lambda>b. ret (ABool b))"
| "perform pf GetOnlineDevices = and_then get_online_devices (\<lambda>x. ret (AIds x))"
| "perform pf (UpdateLastSeen i) = and_then (update_last_seen i) (\<lambda>b. ret (ABool b))"
| "perform pf (GetLastSeen i) = and_then (get_last_seen i) (\<lambda>x. ret (AText x))"
| "perform pf (CacheLatestTelemetry i m t) = and_then (cache_latest_telemetry i m t) (\<lambda>b. ret (ABool b))"
| "perform pf (GetLatestTelemetry i) = and_then (get_latest_telemetry pf i) (\<lambda>x. ret (ASnapshot x))"
| "perform pf (UpdateMeasurement i n x) = and_then (update_measurement i n x) (\<lambda>b. ret (ABool b))"
| "perform pf (GetMeasurement i n) = and_then (get_measurement pf i n) (\<lambda>x. ret (ANumber x))"
| "perform pf (CheckRateLimit k n w) = and_then (check_rate_limit k n w) (\<lambda>b. ret (ABool b))"
| "perform pf (GetRateLimitRemaining k n) = and_then (get_rate_limit_remaining k n) (\<lambda>x. ret (AInt x))"
| "perform pf (InvalidateDeviceCache i) = and_then (invalidate_device_cache i) (\<lambda>b. ret (ABool b))"
| "perform pf (SetTtl k t) = and_then (set_ttl k t) (\<lambda>b. ret (ABool b))"
| "perform pf (GetTtl k) = and_then (get_ttl k) (\<lambda>x. ret (AInt x))"
| "perform pf (Persist k) = and_then (persist k) (\<lambda>b. ret (ABool b))"
| "perform pf IsAvailable = and_then is_available (\<lambda>b. ret (ABool b))"
| "perform pf Ping = and_then ping (\<lambda>b. ret (ABool b))"

fun on_failure :: "cache_call \<Rightarrow> answer" where
  "on_failure (GetDevice i) = AInfo None"
| "on_failure (GetDeviceByApiKey k) = AInfo None"
| "on_failure GetOnlineDevices = AIds []"
| "on_failure (GetLastSeen i) = AText None"
| "on_failure (GetLatestTelemetry i) = ASnapshot None"
| "on_failure (GetMeasurement i n) = ANumber None"
| "on_failure (CheckRateLimit k n w) = ABool True"
| "on_failure (GetRateLimitRemaining k n) = AInt n"
| "on_failure (GetTtl k) = AInt (- 1)"
| "on_failure _ = ABool False"

text \<open>
  The cache between two states of a call that left it reachable: the clock has not
  moved and nothing outside the keys \<open>ks\<close> has changed.
\<close>

definition frame :: "rkey set \<Rightarrow> redis \<Rightarrow> redis \<Rightarrow> bool" where
  "frame ks r r' = (healthy r' \<and> clock r' = clock r \<and> (\<forall>k. k \<notin> ks \<longrightarrow> db r' k = db r k))"

text \<open>\<^verbatim>\<open>devices:online\<close> is missing, or a sorted set without a time to live.\<close>

definition online_key_ok :: "redis \<Rightarrow> bool" where
  "online_key_ok r =
     (case db r KOnline of None \<Rightarrow> True | Some (RZSet z, None) \<Rightarrow> True | _ \<Rightarrow> False)"

text \<open>A store that answers, and a device of which neither the store nor the cache holds a latest value.\<close>

definition available :: "cassandra \<Rightarrow> bool" where
  "available c = (session c \<and> cfaults c = [])"

definition fresh_device :: "int \<Rightarrow> world \<Rightarrow> bool" where
  "fresh_device d w =
     (live (redis_service w) (KLatest d) = None \<and>
      filter (\<lambda>((d', _), _). d' = d) (latest_data (cassandra_service w)) = [])"

text \<open>The durable write of a submission succeeds: \<open>write_telemetry_with_user\<close> returns \<open>True\<close>.\<close>

definition written :: "device \<Rightarrow> payload \<Rightarrow> real \<Rightarrow> world \<Rightarrow> bool" where
  "written dev data ts w =
     (fst (write_telemetry_with_user (utcnow w) (Some (dev_id dev)) (dev_user_id dev)
             (p_data data) (Some ts) (cassandra_service w)) = Inr True)"

text \<open>
  \<open>set_device_online\<close> is the one operation that calls another operation of the cache
  layer, \<open>update_last_seen\<close>, and drops what it returns.
\<close>

fun nests :: "cache_call \<Rightarrow> bool" where
  "nests (SetDeviceOnline i) = True"
| "nests _ = False"

text \<open>
  The latest values the store holds of a device, and the hash the cache holds of it.
  Cache and store are coherent on a device when every number that the cache holds
  under a measurement name is the store's latest value of that name.
\<close>

definition latest_rows :: "int \<Rightarrow> cassandra \<Rightarrow> (string \<times> real) list" where
  "latest_rows d c =
     map (\<lambda>((_, name), (_, x)). (name, x)) (filter (\<lambda>((d', _), _). d' = d) (latest_data c))"

definition cached_hash :: "redis \<Rightarrow> int \<Rightarrow> (string \<times> hval) list option" where
  "cached_hash r d = (case live r (KLatest d) of Some (RHash h, _) \<Rightarrow> Some h | _ \<Rightarrow> None)"

text \<open>The identity that the cache holds for an API key, as \<open>get_device_by_api_key\<close> reads it.\<close>

definition cached_identity :: "redis \<Rightarrow> string \<Rightarrow> device_info option" where
  "cached_identity r k =
     (case live r (KApiKey k) of Some (RStr (SDoc i), _) \<Rightarrow> Some i | _ \<Rightarrow> None)"

definition coherent :: "(string \<Rightarrow> real option) \<Rightarrow> int \<Rightarrow> world \<Rightarrow> bool" where
  "coherent pf d w =
     (case cached_hash (redis_service w) d of
        None \<Rightarrow> True
      | Some h \<Rightarrow>
          list_all (\<lambda>(k, v). case float_of_field pf v of
                        Inl _ \<Rightarrow> True
                      | Inr x \<Rightarrow> map_of (latest_rows d (cassandra_service w)) k = Some x) h)"

section \<open>Results\<close>

lemmas io_defs = ret_def throw_def lift_def and_then_def try_except_def next_call_def

text \<open>
  C8. The write of the time-series store returns \<open>False\<close>, without raising and without
  touching the store, when the device id is absent or the measurement map is empty;
  this holds for \<open>write_telemetry\<close> and for \<open>write_telemetry_with_user\<close>, which calls it.
\<close>

theorem write_rejects_missing_input:
  "device_id = None \<or> data = [] \<Longrightarrow>
     write_telemetry now device_id data timestamp metadata c = (Inr False, c) \<and>
     write_telemetry_with_user now device_id user_id data timestamp c = (Inr False, c)"
  by (auto simp: write_telemetry_def write_telemetry_with_user_def falsy_id_def io_defs)

theorem write_rejects_missing_input_witness:
  "write_telemetry 0 None [(''t'', JNum 1)] None None empty_cassandra = (Inr False, empty_cassandra) \<and>
   write_telemetry_with_user 0 None 3 [(''t'', JNum 1)] None empty_cassandra = (Inr False, empty_cassandra) \<and>
   write_telemetry 0 (Some 7) [] None None empty_cassandra = (Inr False, empty_cassandra)"
  using write_rejects_missing_input [of None "[(''t'', JNum 1)]" 0 None None empty_cassandra 3]
    write_rejects_missing_input [of "Some 7" "[]" 0 None None empty_cassandra 3]
  by simp

text \<open>
  C4. \<open>_parse_time_range\<close> raises on a relative form whose count is not an integer: for
  \<open>"-xh"\<close> the \<open>int\<close> conversion raises \<open>ValueError\<close> outside the \<^verbatim>\<open>try\<close>, where the claim
  has the default of one hour before now.
\<close>

theorem parse_time_range_raises:
  "parse_time_range fromiso now ''-xh'' = Inl ValueError"
  by (simp add: parse_time_range_def endswith_def relative_def py_int_def strip_def
      is_space_def is_digit_def bind_res_def Let_def)

text \<open>
  C10. The list of online devices and the check of one device disagree on the
  boundary: 300 seconds after the device was marked online (score = now - 300) the range
  query still lists it and \<open>is_device_online\<close> denies it; and a device marked online at
  clock 0 is listed 100 seconds later while \<open>is_device_online\<close>, which takes the score 0
  for a missing one, denies it.
\<close>

theorem online_listing_disagrees:
  "fst (get_online_devices (elapse 300 (snd (set_device_online 7 (healthy_redis 700))))) = Inr [7] \<and>
   fst (is_device_online 7 (elapse 300 (snd (set_device_online 7 (healthy_redis 700))))) = Inr False \<and>
   fst (get_online_devices (elapse 100 (snd (set_device_online 7 (healthy_redis 0))))) = Inr [7] \<and>
   fst (is_device_online 7 (elapse 100 (snd (set_device_online 7 (healthy_redis 0))))) = Inr False"
  by code_simp

text \<open>
  C5. A submission of \<open>{temperature: 23.5, code: "42"}\<close> for a device without data is
  stored (201): the store keeps the one numeric measurement, while the cache is given
  the request's map as it came and holds \<open>code\<close> as well, which \<open>get_measurement\<close> then
  reads as the number 42. No telemetry point holds that value.
\<close>

theorem cache_holds_unwritten_value:
  "fst (store_telemetry sample_fromiso
          (submission [(''temperature'', JNum (47 / 2)), (''code'', JStr ''42'')] None) (fresh_world 1000))
     = Reply 201 (Stored 7 1000) \<and>
   latest_data (cassandra_service (snd (store_telemetry sample_fromiso
          (submission [(''temperature'', JNum (47 / 2)), (''code'', JStr ''42'')] None) (fresh_world 1000))))
     = [((7, ''temperature''), (1000, 47 / 2))] \<and>
   map fst (device_data (cassandra_service (snd (store_telemetry sample_fromiso
          (submission [(''temperature'', JNum (47 / 2)), (''code'', JStr ''42'')] None) (fresh_world 1000)))))
     = [(7, 1000, ''temperature'')] \<and>
   db (redis_service (snd (store_telemetry sample_fromiso
          (submission [(''temperature'', JNum (47 / 2)), (''code'', JStr ''42'')] None) (fresh_world 1000)))) (KLatest 7)
     = Some (RHash [(''temperature'', HNum (47 / 2)), (''code'', HStr ''42'')], Some 1600) \<and>
   fst (get_measurement sample_float 7 ''code'' (redis_service (snd (store_telemetry sample_fromiso
          (submission [(''temperature'', JNum (47 / 2)), (''code'', JStr ''42'')] None) (fresh_world 1000)))))
     = Inr (Some 42)"
  by code_simp

subsection \<open>The cache layer never raises\<close>

lemma try_except_Inr: "\<exists>v s'. try_except m d s = (Inr v, s')"
  by (cases "m s") (auto simp: try_except_def split: sum.splits)

lemma wrapped_returns: "\<exists>a. fst (and_then (try_except m d) (\<lambda>v. ret (g v)) s) = Inr a"
  by (simp add: io_defs split: prod.splits sum.splits)

lemma perform_returns: "\<exists>a. fst (perform pf call r) = Inr a"
proof (cases call)
  case IsAvailable
  then show ?thesis
    by (simp add: is_available_def io_defs split: prod.splits sum.splits)
qed (simp_all add: cache_device_def get_device_def delete_device_def cache_api_key_def
      get_device_by_api_key_def invalidate_api_key_def set_device_online_def
      set_device_offline_def is_device_online_def get_online_devices_def update_last_seen_def
      get_last_seen_def cache_latest_telemetry_def get_latest_telemetry_def
      update_measurement_def get_measurement_def check_rate_limit_def
      get_rate_limit_remaining_def invalidate_device_cache_def set_ttl_def get_ttl_def
      persist_def ping_def wrapped_returns)

lemma raise_and_then: "isl (fst (m s)) \<Longrightarrow> isl (fst (and_then m f s))"
  by (cases "m s") (auto simp: and_then_def split: sum.splits)

lemma raise_try_except: "isl (fst (m s)) \<Longrightarrow> fst (try_except m d s) = Inr d"
  by (cases "m s") (auto simp: try_except_def split: sum.splits)

lemma fst_and_then_ret: "fst (and_then m (\<lambda>v. ret (g v)) s) = map_sum id g (fst (m s))"
  by (cases "m s") (auto simp: and_then_def ret_def split: sum.splits)

lemma isl_map_sum: "isl (map_sum f g x) = isl x"
  by (cases x) auto

lemma transport_eq:
  "transport r =
     (if \<not> connected r then (Inl AttributeError, r)
      else (if fst (next_call (faults r)) then Inl ConnectionError else Inr (),
            r\<lparr>faults := snd (next_call (faults r))\<rparr>))"
  by (auto simp: transport_def client_def wire_def io_defs split: list.splits)

lemma transport_down: "down r \<Longrightarrow> isl (fst (transport r))"
  by (auto simp: down_def transport_eq)

lemma commands_down:
  assumes "down r"
  shows "isl (fst (r_ping r))" "isl (fst (r_get k r))" "isl (fst (r_setex k t v r))"
    "isl (fst (r_set k v r))" "isl (fst (r_delete ks r))" "isl (fst (r_incr k r))"
    "isl (fst (r_hgetall k r))" "isl (fst (r_hget k f r))"
    "isl (fst (r_expire k t r))" "isl (fst (r_ttl k r))" "isl (fst (r_persist k r))"
    "isl (fst (r_zadd k i x r))" "isl (fst (r_zrem k i r))" "isl (fst (r_zscore k i r))"
    "isl (fst (r_zrangebyscore k lo hi r))"
  using transport_down [OF assms]
  by (simp_all add: r_ping_def r_get_def r_setex_def r_set_def r_delete_def r_incr_def
      r_hgetall_def r_hget_def r_expire_def r_ttl_def r_persist_def r_zadd_def r_zrem_def
      r_zscore_def r_zrangebyscore_def raise_and_then)

lemma hset_down: "down r \<Longrightarrow> isl (fst (r_hset k m r))"
  by (auto simp: r_hset_def down_def client_def wire_def io_defs split: sum.splits list.splits)

lemma perform_down: "down r \<Longrightarrow> fst (perform pf call r) = Inr (on_failure call)"
  by (cases call)
    (simp_all add: cache_device_def get_device_def delete_device_def cache_api_key_def
      get_device_by_api_key_def invalidate_api_key_def set_device_online_def
      set_device_offline_def is_device_online_def get_online_devices_def update_last_seen_def
      get_last_seen_def cache_latest_telemetry_def get_latest_telemetry_def
      update_measurement_def get_measurement_def check_rate_limit_def
      get_rate_limit_remaining_def invalidate_device_cache_def set_ttl_def get_ttl_def
      persist_def ping_def is_available_def
      fst_and_then_ret isl_map_sum raise_try_except raise_and_then commands_down hset_down)

lemma snd_try_except: "snd (try_except m d s) = snd (m s)"
  by (cases "m s") (auto simp: try_except_def split: sum.splits)

lemma snd_and_then_ret: "snd (and_then m (\<lambda>v. ret (g v)) s) = snd (m s)"
  by (cases "m s") (auto simp: and_then_def ret_def split: sum.splits)

lemma used_one:
  assumes "faults r' = faults r \<or> faults r' = snd (next_call (faults r))"
    and "transport_error r r'"
  shows "down r"
  using assms by (cases "faults r") (auto simp: transport_error_def down_def next_call_def)

lemma used_two:
  assumes "connected r" and "\<not> fst (next_call (faults r))"
    and "\<not> fst (next_call (snd (next_call (faults r))))"
    and "faults r' = snd (next_call (snd (next_call (faults r))))"
  shows "\<not> transport_error r r'"
proof (cases "faults r")
  case Nil
  then show ?thesis using assms by (simp add: transport_error_def next_call_def)
next
  case (Cons a fs)
  then show ?thesis
    using assms by (cases fs) (auto simp: transport_error_def next_call_def)
qed

lemma after_transport:
  assumes "\<And>s. faults (snd (f s)) = faults s"
  shows "faults (snd (and_then transport (\<lambda>_. f) r)) = faults r \<or>
         faults (snd (and_then transport (\<lambda>_. f) r)) = snd (next_call (faults r))"
  by (simp add: transport_eq and_then_def assms)

lemma commands_use_one:
  "faults (snd (r_ping r)) = faults r \<or> faults (snd (r_ping r)) = snd (next_call (faults r))"
  "faults (snd (r_get k r)) = faults r \<or> faults (snd (r_get k r)) = snd (next_call (faults r))"
  "faults (snd (r_setex k t v r)) = faults r \<or> faults (snd (r_setex k t v r)) = snd (next_call (faults r))"
  "faults (snd (r_set k v r)) = faults r \<or> faults (snd (r_set k v r)) = snd (next_call (faults r))"
  "faults (snd (r_delete ks r)) = faults r \<or> faults (snd (r_delete ks r)) = snd (next_call (faults r))"
  "faults (snd (r_incr k r)) = faults r \<or> faults (snd (r_incr k r)) = snd (next_call (faults r))"
  "faults (snd (r_hgetall k r)) = faults r \<or> faults (snd (r_hgetall k r)) = snd (next_call (faults r))"
  "faults (snd (r_hget k f r)) = faults r \<or> faults (snd (r_hget k f r)) = snd (next_call (faults r))"
  "faults (snd (r_expire k t r)) = faults r \<or> faults (snd (r_expire k t r)) = snd (next_call (faults r))"
  "faults (snd (r_ttl k r)) = faults r \<or> faults (snd (r_ttl k r)) = snd (next_call (faults r))"
  "faults (snd (r_persist k r)) = faults r \<or> faults (snd (r_persist k r)) = snd (next_call (faults r))"
  "faults (snd (r_zadd k i x r)) = faults r \<or> faults (snd (r_zadd k i x r)) = snd (next_call (faults r))"
  "faults (snd (r_zrem k i r)) = faults r \<or> faults (snd (r_zrem k i r)) = snd (next_call (faults r))"
  "faults (snd (r_zscore k i r)) = faults r \<or> faults (snd (r_zscore k i r)) = snd (next_call (faults r))"
  "faults (snd (r_zrangebyscore k lo hi r)) = faults r \<or> faults (snd (r_zrangebyscore k lo hi r)) = snd (next_call (faults r))"
proof -
  show "faults (snd (r_ping r)) = faults r \<or> faults (snd (r_ping r)) = snd (next_call (faults r))"
    unfolding r_ping_def
    by (rule after_transport)
       (auto simp: ret_def store_def split: option.splits prod.splits rvalue.splits sval.splits)
  show "faults (snd (r_get k r)) = faults r \<or> faults (snd (r_get k r)) = snd (next_call (faults r))"
    unfolding r_get_def
    by (rule after_transport)
       (auto simp: ret_def store_def split: option.splits prod.splits rvalue.splits sval.splits)
  show "faults (snd (r_setex k t v r)) = faults r \<or> faults (snd (r_setex k t v r)) = snd (next_call (faults r))"
    unfolding r_setex_def
    by (rule after_transport)
       (auto simp: ret_def store_def split: option.splits prod.splits rvalue.splits sval.splits)
  show "faults (snd (r_set k v r)) = faults r \<or> faults (snd (r_set k v r)) = snd (next_call (faults r))"
    unfolding r_set_def
    by (rule after_transport)
       (auto simp: ret_def store_def split: option.splits prod.splits rvalue.splits sval.splits)
  show "faults (snd (r_delete ks r)) = faults r \<or> faults (snd (r_delete ks r)) = snd (next_call (faults r))"
    unfolding r_delete_def
    by (rule after_transport)
       (auto simp: ret_def store_def split: option.splits prod.splits rvalue.splits sval.splits)
  show "faults (snd (r_incr k r)) = faults r \<or> faults (snd (r_incr k r)) = snd (next_call (faults r))"
    unfolding r_incr_def
    by (rule after_transport)
       (auto simp: ret_def store_def split: option.splits prod.splits rvalue.splits sval.splits)
  show "faults (snd (r_hgetall k r)) = faults r \<or> faults (snd (r_hgetall k r)) = snd (next_call (faults r))"
    unfolding r_hgetall_def
    by (rule after_transport)
       (auto simp: ret_def store_def split: option.splits prod.splits rvalue.splits sval.splits)
  show "faults (snd (r_hget k f r)) = faults r \<or> faults (snd (r_hget k f r)) = snd (next_call (faults r))"
    unfolding r_hget_def
    by (rule after_transport)
       (auto simp: ret_def store_def split: option.splits prod.splits rvalue.splits sval.splits)
  show "faults (snd (r_expire k t r)) = faults r \<or> faults (snd (r_expire k t r)) = snd (next_call (faults r))"
    unfolding r_expire_def
    by (rule after_transport)
       (auto simp: ret_def store_def split: option.splits prod.splits rvalue.splits sval.splits)
  show "faults (snd (r_ttl k r)) = faults r \<or> faults (snd (r_ttl k r)) = snd (next_call (faults r))"
    unfolding r_ttl_def
    by (rule after_transport)
       (auto simp: ret_def store_def split: option.splits prod.splits rvalue.splits sval.splits)
  show "faults (snd (r_persist k r)) = faults r \<or> faults (snd (r_persist k r)) = snd (next_call (faults r))"
    unfolding r_persist_def
    by (rule after_transport)
       (auto simp: ret_def store_def split: option.splits prod.splits rvalue.splits sval.splits)
  show "faults (snd (r_zadd k i x r)) = faults r \<or> faults (snd (r_zadd k i x r)) = snd (next_call (faults r))"
    unfolding r_zadd_def
    by (rule after_transport)
       (auto simp: ret_def store_def split: option.splits prod.splits rvalue.splits sval.splits)
  show "faults (snd (r_zrem k i r)) = faults r \<or> faults (snd (r_zrem k i r)) = snd (next_call (faults r))"
    unfolding r_zrem_def
    by (rule after_transport)
       (auto simp: ret_def store_def split: option.splits prod.splits rvalue.splits sval.splits)
  show "faults (snd (r_zscore k i r)) = faults r \<or> faults (snd (r_zscore k i r)) = snd (next_call (faults r))"
    unfolding r_zscore_def
    by (rule after_transport)
       (auto simp: ret_def store_def split: option.splits prod.splits rvalue.splits sval.splits)
  show "faults (snd (r_zrangebyscore k lo hi r)) = faults r \<or> faults (snd (r_zrangebyscore k lo hi r)) = snd (next_call (faults r))"
    unfolding r_zrangebyscore_def
    by (rule after_transport)
       (auto simp: ret_def store_def split: option.splits prod.splits rvalue.splits sval.splits)
qed

lemma hset_uses_one:
  "faults (snd (r_hset k m r)) = faults r \<or> faults (snd (r_hset k m r)) = snd (next_call (faults r))"
  by (auto simp: r_hset_def client_def wire_def io_defs store_def
      split: option.splits prod.splits rvalue.splits sum.splits list.splits bool.splits)


lemma snd_and_then_pure:
  assumes "\<And>v s'. snd (f v s') = s'"
  shows "snd (and_then m f s) = snd (m s)"
  using assms by (cases "m s") (auto simp: and_then_def split: sum.splits)

lemma single_command_calls:
  "faults (snd (cache_device i d t r)) = faults r \<or> faults (snd (cache_device i d t r)) = snd (next_call (faults r))"
  "faults (snd (get_device i r)) = faults r \<or> faults (snd (get_device i r)) = snd (next_call (faults r))"
  "faults (snd (delete_device i r)) = faults r \<or> faults (snd (delete_device i r)) = snd (next_call (faults r))"
  "faults (snd (cache_api_key k d t r)) = faults r \<or> faults (snd (cache_api_key k d t r)) = snd (next_call (faults r))"
  "faults (snd (get_device_by_api_key k r)) = faults r \<or>
   faults (snd (get_device_by_api_key k r)) = snd (next_call (faults r))"
  "faults (snd (invalidate_api_key k r)) = faults r \<or> faults (snd (invalidate_api_key k r)) = snd (next_call (faults r))"
  "faults (snd (set_device_offline i r)) = faults r \<or> faults (snd (set_device_offline i r)) = snd (next_call (faults r))"
  "faults (snd (is_device_online i r)) = faults r \<or> faults (snd (is_device_online i r)) = snd (next_call (faults r))"
  "faults (snd (get_online_devices r)) = faults r \<or> faults (snd (get_online_devices r)) = snd (next_call (faults r))"
  "faults (snd (update_last_seen i r)) = faults r \<or> faults (snd (update_last_seen i r)) = snd (next_call (faults r))"
  "faults (snd (get_last_seen i r)) = faults r \<or> faults (snd (get_last_seen i r)) = snd (next_call (faults r))"
  "faults (snd (get_latest_telemetry pf i r)) = faults r \<or>
   faults (snd (get_latest_telemetry pf i r)) = snd (next_call (faults r))"
  "faults (snd (update_measurement i n x r)) = faults r \<or>
   faults (snd (update_measurement i n x r)) = snd (next_call (faults r))"
  "faults (snd (get_measurement pf i n r)) = faults r \<or>
   faults (snd (get_measurement pf i n r)) = snd (next_call (faults r))"
  "faults (snd (get_rate_limit_remaining key n' r)) = faults r \<or>
   faults (snd (get_rate_limit_remaining key n' r)) = snd (next_call (faults r))"
  "faults (snd (set_ttl rk t r)) = faults r \<or> faults (snd (set_ttl rk t r)) = snd (next_call (faults r))"
  "faults (snd (get_ttl rk r)) = faults r \<or> faults (snd (get_ttl rk r)) = snd (next_call (faults r))"
  "faults (snd (persist rk r)) = faults r \<or> faults (snd (persist rk r)) = snd (next_call (faults r))"
  "faults (snd (ping r)) = faults r \<or> faults (snd (ping r)) = snd (next_call (faults r))"
  "faults (snd (is_available r)) = faults r \<or> faults (snd (is_available r)) = snd (next_call (faults r))"
proof -
  have pure: "snd ((case x of None \<Rightarrow> ret None | Some s \<Rightarrow> and_then (lift (g s)) (\<lambda>d. ret (h d))) s') = s'"
    for x :: "'a option" and g :: "'a \<Rightarrow> exn + 'b" and h :: "'b \<Rightarrow> 'c option" and s' :: redis
    by (auto simp: io_defs split: option.splits sum.splits)
  show "faults (snd (cache_device i d t r)) = faults r \<or> faults (snd (cache_device i d t r)) = snd (next_call (faults r))"
    by (simp add: cache_device_def snd_try_except snd_and_then_ret commands_use_one)
  show "faults (snd (get_device i r)) = faults r \<or> faults (snd (get_device i r)) = snd (next_call (faults r))"
    by (simp add: get_device_def snd_try_except snd_and_then_pure [OF pure] commands_use_one)
  show "faults (snd (delete_device i r)) = faults r \<or> faults (snd (delete_device i r)) = snd (next_call (faults r))"
    by (simp add: delete_device_def snd_try_except snd_and_then_ret commands_use_one)
  show "faults (snd (cache_api_key k d t r)) = faults r \<or> faults (snd (cache_api_key k d t r)) = snd (next_call (faults r))"
    by (simp add: cache_api_key_def snd_try_except snd_and_then_ret commands_use_one)
  show "faults (snd (get_device_by_api_key k r)) = faults r \<or>
        faults (snd (get_device_by_api_key k r)) = snd (next_call (faults r))"
    by (simp add: get_device_by_api_key_def snd_try_except snd_and_then_pure [OF pure] commands_use_one)
  show "faults (snd (invalidate_api_key k r)) = faults r \<or> faults (snd (invalidate_api_key k r)) = snd (next_call (faults r))"
    by (simp add: invalidate_api_key_def snd_try_except snd_and_then_ret commands_use_one)
  show "faults (snd (set_device_offline i r)) = faults r \<or> faults (snd (set_device_offline i r)) = snd (next_call (faults r))"
    by (simp add: set_device_offline_def snd_try_except snd_and_then_ret commands_use_one)
  show "faults (snd (is_device_online i r)) = faults r \<or> faults (snd (is_device_online i r)) = snd (next_call (faults r))"
    using commands_use_one(14) [of KOnline i r]
    by (cases "r_zscore KOnline i r")
       (auto simp: is_device_online_def snd_try_except and_then_def ret_def split: sum.splits)
  show "faults (snd (get_online_devices r)) = faults r \<or> faults (snd (get_online_devices r)) = snd (next_call (faults r))"
    by (simp add: get_online_devices_def snd_try_except commands_use_one)
  show "faults (snd (update_last_seen i r)) = faults r \<or> faults (snd (update_last_seen i r)) = snd (next_call (faults r))"
    by (simp add: update_last_seen_def snd_try_except snd_and_then_ret commands_use_one)
  show "faults (snd (get_last_seen i r)) = faults r \<or> faults (snd (get_last_seen i r)) = snd (next_call (faults r))"
    by (simp add: get_last_seen_def snd_try_except commands_use_one)
  show "faults (snd (get_latest_telemetry pf i r)) = faults r \<or>
        faults (snd (get_latest_telemetry pf i r)) = snd (next_call (faults r))"
    using commands_use_one(7) [of "KLatest i" r]
    by (cases "r_hgetall (KLatest i) r")
       (auto simp: get_latest_telemetry_def snd_try_except io_defs split: sum.splits)
  show "faults (snd (update_measurement i n x r)) = faults r \<or>
        faults (snd (update_measurement i n x r)) = snd (next_call (faults r))"
    by (simp add: update_measurement_def snd_try_except snd_and_then_ret hset_uses_one)
  show "faults (snd (get_measurement pf i n r)) = faults r \<or>
        faults (snd (get_measurement pf i n r)) = snd (next_call (faults r))"
    using commands_use_one(8) [of "KLatest i" n r]
    by (cases "r_hget (KLatest i) n r")
       (auto simp: get_measurement_def snd_try_except io_defs split: sum.splits option.splits)
  show "faults (snd (get_rate_limit_remaining key n' r)) = faults r \<or>
        faults (snd (get_rate_limit_remaining key n' r)) = snd (next_call (faults r))"
    using commands_use_one(2) [of "KRateLimit key" r]
    by (cases "r_get (KRateLimit key) r")
       (auto simp: get_rate_limit_remaining_def snd_try_except io_defs split: sum.splits option.splits)
  show "faults (snd (set_ttl rk t r)) = faults r \<or> faults (snd (set_ttl rk t r)) = snd (next_call (faults r))"
    by (simp add: set_ttl_def snd_try_except commands_use_one)
  show "faults (snd (get_ttl rk r)) = faults r \<or> faults (snd (get_ttl rk r)) = snd (next_call (faults r))"
    by (simp add: get_ttl_def snd_try_except commands_use_one)
  show "faults (snd (persist rk r)) = faults r \<or> faults (snd (persist rk r)) = snd (next_call (faults r))"
    by (simp add: persist_def snd_try_except commands_use_one)
  show "faults (snd (ping r)) = faults r \<or> faults (snd (ping r)) = snd (next_call (faults r))"
    by (simp add: ping_def snd_try_except commands_use_one)
  show "faults (snd (is_available r)) = faults r \<or> faults (snd (is_available r)) = snd (next_call (faults r))"
    by (simp add: is_available_def snd_try_except commands_use_one)
qed


lemma rate_limit_fails_open:
  assumes "transport_error r (snd (check_rate_limit k n w r))"
  shows "fst (check_rate_limit k n w r) = Inr True"
proof (rule ccontr)
  assume other: "fst (check_rate_limit k n w r) \<noteq> Inr True"
  have "fst (check_rate_limit k n w r) = Inr True \<or>
        snd (check_rate_limit k n w r) = snd (r_get (KRateLimit k) r)"
    by (cases "r_get (KRateLimit k) r")
       (auto simp: check_rate_limit_def io_defs split: sum.splits option.splits prod.splits)
  then have "snd (check_rate_limit k n w r) = snd (r_get (KRateLimit k) r)"
    using other by simp
  then have "down r"
    using used_one [OF commands_use_one(2) [of "KRateLimit k" r]] assms by simp
  then have "fst (check_rate_limit k n w r) = Inr True"
    by (simp add: check_rate_limit_def raise_try_except raise_and_then commands_down)
  then show False using other by simp
qed


lemmas single_down = single_command_calls [THEN used_one]

lemma success_after_transport:
  assumes "\<And>s. faults (snd (f s)) = faults s \<and> connected (snd (f s)) = connected s"
    and "fst (and_then transport (\<lambda>_. f) r) = Inr x"
  shows "connected r \<and> \<not> fst (next_call (faults r)) \<and>
         faults (snd (and_then transport (\<lambda>_. f) r)) = snd (next_call (faults r)) \<and>
         connected (snd (and_then transport (\<lambda>_. f) r))"
  using assms(2) by (auto simp: transport_eq and_then_def assms(1) split: if_splits)

lemma commands_succeed:
  "fst (r_expire k t r) = Inr b \<Longrightarrow> connected r \<and> \<not> fst (next_call (faults r)) \<and>
     faults (snd (r_expire k t r)) = snd (next_call (faults r)) \<and> connected (snd (r_expire k t r))"
  "fst (r_delete ks r) = Inr u \<Longrightarrow> connected r \<and> \<not> fst (next_call (faults r)) \<and>
     faults (snd (r_delete ks r)) = snd (next_call (faults r)) \<and> connected (snd (r_delete ks r))"
  "fst (r_zrem k i r) = Inr u \<Longrightarrow> connected r \<and> \<not> fst (next_call (faults r)) \<and>
     faults (snd (r_zrem k i r)) = snd (next_call (faults r)) \<and> connected (snd (r_zrem k i r))"
proof -
  show "fst (r_expire k t r) = Inr b \<Longrightarrow> connected r \<and> \<not> fst (next_call (faults r)) \<and>
     faults (snd (r_expire k t r)) = snd (next_call (faults r)) \<and> connected (snd (r_expire k t r))"
    unfolding r_expire_def
    by (rule success_after_transport)
       (auto simp: store_def split: option.splits prod.splits rvalue.splits)
  show "fst (r_delete ks r) = Inr u \<Longrightarrow> connected r \<and> \<not> fst (next_call (faults r)) \<and>
     faults (snd (r_delete ks r)) = snd (next_call (faults r)) \<and> connected (snd (r_delete ks r))"
    unfolding r_delete_def
    by (rule success_after_transport) auto
  show "fst (r_zrem k i r) = Inr u \<Longrightarrow> connected r \<and> \<not> fst (next_call (faults r)) \<and>
     faults (snd (r_zrem k i r)) = snd (next_call (faults r)) \<and> connected (snd (r_zrem k i r))"
    unfolding r_zrem_def
    by (rule success_after_transport)
       (auto simp: store_def split: option.splits prod.splits rvalue.splits)
qed

lemma hset_succeeds:
  "fst (r_hset k m r) = Inr u \<Longrightarrow> connected r \<and> \<not> fst (next_call (faults r)) \<and>
     faults (snd (r_hset k m r)) = snd (next_call (faults r)) \<and> connected (snd (r_hset k m r))"
  by (auto simp: r_hset_def client_def wire_def io_defs store_def
      split: option.splits prod.splits rvalue.splits sum.splits list.splits bool.splits if_splits)

lemma cache_latest_failed:
  assumes "transport_error r (snd (cache_latest_telemetry d m t r))"
  shows "fst (cache_latest_telemetry d m t r) = Inr False"
proof (rule ccontr)
  assume other: "fst (cache_latest_telemetry d m t r) \<noteq> Inr False"
  obtain x1 r1 where 1: "r_hset (KLatest d) m r = (x1, r1)" by fastforce
  obtain x2 r2 where 2: "r_expire (KLatest d) t r1 = (x2, r2)" by fastforce
  from other 1 obtain u where u: "x1 = Inr u"
    by (cases x1) (auto simp: cache_latest_telemetry_def io_defs)
  from other 1 2 u obtain b where b: "x2 = Inr b"
    by (cases x2) (auto simp: cache_latest_telemetry_def io_defs)
  have state: "snd (cache_latest_telemetry d m t r) = r2"
    using 1 2 u b by (simp add: cache_latest_telemetry_def io_defs)
  have "\<not> transport_error r r2"
    using hset_succeeds [of "KLatest d" m r u] commands_succeed(1) [of "KLatest d" t r1 b] 1 2 u b
    by (intro used_two) simp_all
  then show False using assms state by simp
qed

lemma invalidate_failed:
  assumes "transport_error r (snd (invalidate_device_cache d r))"
  shows "fst (invalidate_device_cache d r) = Inr False"
proof (rule ccontr)
  assume other: "fst (invalidate_device_cache d r) \<noteq> Inr False"
  let ?ks = "[KDevice d, KLatest d, KLastSeen d, KAlerts d]"
  obtain x1 r1 where 1: "r_delete ?ks r = (x1, r1)" by fastforce
  obtain x2 r2 where 2: "r_zrem KOnline d r1 = (x2, r2)" by fastforce
  from other 1 obtain u where u: "x1 = Inr u"
    by (cases x1) (auto simp: invalidate_device_cache_def io_defs)
  from other 1 2 u obtain b where b: "x2 = Inr b"
    by (cases x2) (auto simp: invalidate_device_cache_def io_defs)
  have state: "snd (invalidate_device_cache d r) = r2"
    using 1 2 u b by (simp add: invalidate_device_cache_def io_defs)
  have "\<not> transport_error r r2"
    using commands_succeed(2) [of ?ks r u] commands_succeed(3) [of KOnline d r1 b] 1 2 u b
    by (intro used_two) simp_all
  then show False using assms state by simp
qed

lemma set_online_nested:
  assumes "transport_error r (snd (set_device_online d r))" and "\<not> down r"
  shows "fst (set_device_online d r) = Inr True"
proof -
  obtain x1 r1 where 1: "r_zadd KOnline d (clock r) r = (x1, r1)" by fastforce
  show ?thesis
  proof (cases x1)
    case (Inl e)
    then have "snd (set_device_online d r) = snd (r_zadd KOnline d (clock r) r)"
      using 1 by (simp add: set_device_online_def io_defs)
    then have "down r"
      using used_one [OF commands_use_one(12) [of KOnline d "clock r" r]] assms(1) by simp
    then show ?thesis using assms(2) by simp
  next
    case (Inr u)
    have "\<exists>b r2. update_last_seen d r1 = (Inr b, r2)"
      by (simp add: update_last_seen_def try_except_Inr)
    then show ?thesis
      using 1 Inr by (auto simp: set_device_online_def io_defs)
  qed
qed

lemma perform_failed:
  assumes "transport_error r (snd (perform pf call r))" and "\<not> nests call"
  shows "fst (perform pf call r) = Inr (on_failure call)"
proof -
  consider (latest) i m t where "call = CacheLatestTelemetry i m t"
    | (limit) k n w where "call = CheckRateLimit k n w"
    | (invalidate) i where "call = InvalidateDeviceCache i"
    | (single) "down r"
    using assms by (cases call) (auto simp: snd_and_then_ret dest: single_down)
  then show ?thesis
  proof cases
    case latest
    then show ?thesis
      using assms(1) cache_latest_failed [of r i m t] by (simp add: snd_and_then_ret fst_and_then_ret)
  next
    case limit
    then show ?thesis
      using assms(1) rate_limit_fails_open [of r k n w] by (simp add: snd_and_then_ret fst_and_then_ret)
  next
    case invalidate
    then show ?thesis
      using assms(1) invalidate_failed [of r i] by (simp add: snd_and_then_ret fst_and_then_ret)
  next
    case single
    then show ?thesis by (rule perform_down)
  qed
qed

lemma is_available_reports: "fst (is_available r) = Inr (\<not> down r)"
  by (auto simp: is_available_def r_ping_def transport_eq down_def io_defs)

lemma is_available_healthy: "healthy r \<Longrightarrow> is_available r = (Inr True, r)"
  by (cases r) (simp add: is_available_def r_ping_def transport_eq io_defs healthy_def)

text \<open>
  C6, amended. Every operation of the cache layer's contract returns a value, whatever
  the state of the client and the outcome of its commands. It returns its default
  (\<open>None\<close>, \<open>False\<close>, the empty list, the full quota, -1) when the cache is down, and,
  unless it is \<open>set_device_online\<close>, whenever a transport error occurred during the call,
  at whichever of its commands. \<open>set_device_online\<close> returns \<open>True\<close> once its own command
  went through, also when the update of last-seen that it calls failed.
  \<open>check_rate_limit\<close> returns \<open>True\<close> whenever a transport error occurred during the call.
  \<open>is_available\<close> returns \<open>True\<close> exactly when the cache is not down, and leaves a cache
  that answers as it is.
\<close>

theorem cache_layer_suppresses_failures:
  "(\<exists>a. fst (perform pf call r) = Inr a) \<and>
   (down r \<longrightarrow> fst (perform pf call r) = Inr (on_failure call)) \<and>
   (transport_error r (snd (perform pf call r)) \<and> \<not> nests call \<longrightarrow>
      fst (perform pf call r) = Inr (on_failure call)) \<and>
   (transport_error r (snd (set_device_online i r)) \<and> \<not> down r \<longrightarrow>
      fst (set_device_online i r) = Inr True) \<and>
   (transport_error r (snd (check_rate_limit k n w r)) \<longrightarrow>
      fst (check_rate_limit k n w r) = Inr True) \<and>
   fst (is_available r) = Inr (\<not> down r) \<and>
   (healthy r \<longrightarrow> is_available r = (Inr True, r))"
  using perform_returns perform_down perform_failed set_online_nested rate_limit_fails_open
    is_available_reports is_available_healthy
  by blast

theorem cache_layer_suppresses_failures_witness:
  "fst (perform sample_float (GetLatestTelemetry 7) ((healthy_redis 0)\<lparr>connected := False\<rparr>))
     = Inr (ASnapshot None) \<and>
   fst (perform sample_float (CacheLatestTelemetry 7 [(''t'', JNum 1)] 600)
          ((healthy_redis 0)\<lparr>faults := [False, True]\<rparr>)) = Inr (ABool False) \<and>
   fst (set_device_online 7 ((healthy_redis 0)\<lparr>faults := [False, True]\<rparr>)) = Inr True \<and>
   fst (check_rate_limit ''k'' 5 60 ((healthy_redis 0)\<lparr>faults := [True]\<rparr>)) = Inr True \<and>
   fst (is_available ((healthy_redis 0)\<lparr>connected := False\<rparr>)) = Inr False \<and>
   fst (is_available (healthy_redis 0)) = Inr True"
proof -
  let ?off = "(healthy_redis 0)\<lparr>connected := False\<rparr>"
  let ?late = "(healthy_redis 0)\<lparr>faults := [False, True]\<rparr>"
  let ?early = "(healthy_redis 0)\<lparr>faults := [True]\<rparr>"
  have d: "down ?off"
    by (simp add: down_def)
  have t2: "transport_error ?late
             (snd (perform sample_float (CacheLatestTelemetry 7 [(''t'', JNum 1)] 600) ?late))"
    by code_simp
  have n2: "\<not> nests (CacheLatestTelemetry 7 [(''t'', JNum 1)] 600)"
    by simp
  have t3: "transport_error ?late (snd (set_device_online 7 ?late))"
    by code_simp
  have d3: "\<not> down ?late"
    by (simp add: down_def healthy_redis_def next_call_def)
  have t4: "transport_error ?early (snd (check_rate_limit ''k'' 5 60 ?early))"
    by code_simp
  have h: "healthy (healthy_redis 0)"
    by (simp add: healthy_def healthy_redis_def)
  have d5: "\<not> down (healthy_redis 0)"
    by (simp add: down_def healthy_redis_def next_call_def)
  from cache_layer_suppresses_failures [of sample_float "GetLatestTelemetry 7" ?off]
       cache_layer_suppresses_failures
         [of sample_float "CacheLatestTelemetry 7 [(''t'', JNum 1)] 600" ?late 7]
       cache_layer_suppresses_failures [of sample_float "GetLatestTelemetry 7" ?early 7 "''k''" 5 60]
       cache_layer_suppresses_failures [of sample_float "GetLatestTelemetry 7" "healthy_redis 0"]
       d t2 n2 t3 d3 t4 h d5
  show ?thesis by simp
qed

text \<open>
  C6 as stated fails for \<open>set_device_online\<close> when its own command goes through and
  the command of the \<open>update_last_seen\<close> that it calls fails: the failure is caught
  there, last-seen is not written, and \<open>set_device_online\<close> returns \<open>True\<close>, not its
  default \<open>False\<close>.
\<close>

theorem set_online_counterexample:
  "transport_error ((healthy_redis 0)\<lparr>faults := [False, True]\<rparr>)
     (snd (set_device_online 7 ((healthy_redis 0)\<lparr>faults := [False, True]\<rparr>))) \<and>
   fst (perform sample_float (SetDeviceOnline 7) ((healthy_redis 0)\<lparr>faults := [False, True]\<rparr>))
     = Inr (ABool True) \<and>
   on_failure (SetDeviceOnline 7) = ABool False \<and>
   db (snd (set_device_online 7 ((healthy_redis 0)\<lparr>faults := [False, True]\<rparr>))) (KLastSeen 7) = None"
  by code_simp

subsection \<open>The rate limiter within one window\<close>

lemma transport_healthy: "healthy r \<Longrightarrow> transport r = (Inr (), r)"
  by (simp add: healthy_def transport_def client_def wire_def io_defs)

lemma healthy_store: "healthy (store k v ex r) = healthy r"
  by (simp add: healthy_def store_def)

lemma clock_store: "clock (store k v ex r) = clock r"
  by (simp add: store_def)

lemma db_store: "db (store k v ex r) = (db r)(k \<mapsto> (v, ex))"
  by (simp add: store_def)

lemma healthy_clock: "healthy (r\<lparr>clock := t\<rparr>) = healthy r"
  by (simp add: healthy_def)

lemma first_call:
  assumes "healthy r" "live r (KRateLimit key) = None" "1 \<le> w" "representable (clock r) w"
  shows "check_rate_limit key n w r =
           (Inr True, store (KRateLimit key) (RStr (SInt 1)) (Some (clock r + real_of_int w)) r)"
  using assms
  by (simp add: check_rate_limit_def r_get_def r_setex_def transport_healthy healthy_store io_defs)

lemma later_call:
  assumes "healthy r" "live r (KRateLimit key) = Some (RStr (SInt c), ex)"
  shows "check_rate_limit key n w r =
           (if c \<ge> n then (Inr False, r)
            else (Inr True, store (KRateLimit key) (RStr (SInt (c + 1))) ex r))"
  using assms
  by (simp add: check_rate_limit_def r_get_def r_incr_def int_of_text_def transport_healthy io_defs)

lemma live_counter:
  "db r k = Some (v, Some e) \<Longrightarrow> t < e \<Longrightarrow> live (r\<lparr>clock := t\<rparr>) k = Some (v, Some e)"
  by (simp add: live_def)

lemma calls_in_window:
  assumes "healthy r" "db r (KRateLimit key) = Some (RStr (SInt c), Some e)" "c \<le> n"
    and "\<forall>t \<in> set ts. t < e"
  shows "fst (calls key n w ts r) = map (\<lambda>i. c + int i < n) [0..<length ts] \<and>
         healthy (snd (calls key n w ts r)) \<and>
         db (snd (calls key n w ts r)) (KRateLimit key)
           = Some (RStr (SInt (min (c + int (length ts)) n)), Some e) \<and>
         (ts \<noteq> [] \<longrightarrow> clock (snd (calls key n w ts r)) = last ts)"
  using assms
proof (induction ts arbitrary: r c)
  case Nil
  then show ?case by simp
next
  case (Cons t ts)
  let ?r0 = "r\<lparr>clock := t\<rparr>"
  have h0: "healthy ?r0" using Cons.prems(1) by (simp add: healthy_clock)
  have l0: "live ?r0 (KRateLimit key) = Some (RStr (SInt c), Some e)"
    using Cons.prems(2,4) by (simp add: live_counter)
  show ?case
  proof (cases "c \<ge> n")
    case True
    then have eq: "c = n" using Cons.prems(3) by simp
    have step: "check_rate_limit key n w ?r0 = (Inr False, ?r0)"
      using later_call [OF h0 l0, of n w] True by simp
    have ih: "fst (calls key n w ts ?r0) = map (\<lambda>i. c + int i < n) [0..<length ts] \<and>
         healthy (snd (calls key n w ts ?r0)) \<and>
         db (snd (calls key n w ts ?r0)) (KRateLimit key)
           = Some (RStr (SInt (min (c + int (length ts)) n)), Some e) \<and>
         (ts \<noteq> [] \<longrightarrow> clock (snd (calls key n w ts ?r0)) = last ts)"
      using Cons.IH [of ?r0 c] h0 Cons.prems by simp
    show ?thesis
      using step ih eq
      by (cases "calls key n w ts ?r0") (auto simp: map_upt_Suc simp del: upt_Suc)
  next
    case False
    let ?r1 = "store (KRateLimit key) (RStr (SInt (c + 1))) (Some e) ?r0"
    have step: "check_rate_limit key n w ?r0 = (Inr True, ?r1)"
      using later_call [OF h0 l0, of n w] False by simp
    have h1: "healthy ?r1" using h0 by (simp add: healthy_store)
    have d1: "db ?r1 (KRateLimit key) = Some (RStr (SInt (c + 1)), Some e)"
      by (simp add: store_def)
    have ih: "fst (calls key n w ts ?r1) = map (\<lambda>i. c + 1 + int i < n) [0..<length ts] \<and>
         healthy (snd (calls key n w ts ?r1)) \<and>
         db (snd (calls key n w ts ?r1)) (KRateLimit key)
           = Some (RStr (SInt (min (c + 1 + int (length ts)) n)), Some e) \<and>
         (ts \<noteq> [] \<longrightarrow> clock (snd (calls key n w ts ?r1)) = last ts)"
      using Cons.IH [of ?r1 "c + 1"] h1 d1 False Cons.prems(4) by simp
    have c1: "clock ?r1 = t" by (simp add: store_def)
    show ?thesis
      using step ih False c1
      by (cases "calls key n w ts ?r1") (auto simp: map_upt_Suc add.assoc simp del: upt_Suc)
  qed
qed

lemma remaining_healthy:
  assumes "healthy r" "live r (KRateLimit key) = Some (RStr (SInt c), ex)"
  shows "fst (get_rate_limit_remaining key n r) = Inr (max 0 (n - c))"
  using assms
  by (simp add: get_rate_limit_remaining_def r_get_def int_of_text_def transport_healthy io_defs)

text \<open>
  C3, amended. With a limit \<open>n \<ge> 1\<close>, a window \<open>w \<ge> 1\<close> that Redis accepts as a time to
  live at \<open>t0\<close>, a cache that answers and no counter for the key at \<open>t0\<close>: of the calls
  at \<open>t0\<close> and at later instants before \<open>t0 + w\<close>, exactly the first \<open>n\<close> are permitted;
  afterwards the counter holds the number of calls made, at most \<open>n\<close>, and expires at
  \<open>t0 + w\<close>; \<open>get_rate_limit_remaining\<close> returns what is left of the quota, 0 once it is
  used up.
\<close>

theorem rate_limit_window:
  assumes "1 \<le> n" and "1 \<le> w" and "representable t0 w" and "healthy r"
    and "live (r\<lparr>clock := t0\<rparr>) (KRateLimit key) = None"
    and "\<forall>t \<in> set ts. t < t0 + real_of_int w"
  shows "fst (calls key n w (t0 # ts) r) = map (\<lambda>i. int i < n) [0..<Suc (length ts)] \<and>
         db (snd (calls key n w (t0 # ts) r)) (KRateLimit key)
           = Some (RStr (SInt (min (1 + int (length ts)) n)), Some (t0 + real_of_int w)) \<and>
         fst (get_rate_limit_remaining key n (snd (calls key n w (t0 # ts) r)))
           = Inr (max 0 (n - (1 + int (length ts))))"
proof -
  let ?r0 = "r\<lparr>clock := t0\<rparr>"
  let ?k = "KRateLimit key"
  let ?e = "t0 + real_of_int w"
  let ?r1 = "store ?k (RStr (SInt 1)) (Some ?e) ?r0"
  have h0: "healthy ?r0" using assms(4) by (simp add: healthy_clock)
  have step: "check_rate_limit key n w ?r0 = (Inr True, ?r1)"
    using first_call [OF h0 assms(5) assms(2), of n] assms(3) by simp
  have h1: "healthy ?r1" using h0 by (simp add: healthy_store)
  have d1: "db ?r1 ?k = Some (RStr (SInt 1), Some ?e)" by (simp add: store_def)
  have c1: "clock ?r1 = t0" by (simp add: store_def)
  note tail = calls_in_window [OF h1 d1 assms(1) assms(6), of w]
  obtain bs r2 where c: "calls key n w ts ?r1 = (bs, r2)" by fastforce
  have whole: "calls key n w (t0 # ts) r = (True # bs, r2)"
    using step c by simp
  have bs: "bs = map (\<lambda>i. 1 + int i < n) [0..<length ts]" and h2: "healthy r2"
    and d2: "db r2 ?k = Some (RStr (SInt (min (1 + int (length ts)) n)), Some ?e)"
    and c2: "ts \<noteq> [] \<longrightarrow> clock r2 = last ts"
    using tail c by simp_all
  have "map (\<lambda>i. int i < n) [0..<Suc (length ts)] = True # bs"
    using assms(1) bs by (simp add: upt_rec [of 0] map_Suc_upt [symmetric] del: upt_Suc)
  moreover have "clock r2 < ?e"
  proof (cases ts)
    case Nil
    then show ?thesis using c c1 assms(2) by simp
  next
    case (Cons a as)
    then show ?thesis using c2 assms(6) by (metis last_in_set list.distinct(1))
  qed
  then have "live r2 ?k = Some (RStr (SInt (min (1 + int (length ts)) n)), Some ?e)"
    using d2 by (simp add: live_def)
  then have "fst (get_rate_limit_remaining key n r2)
               = Inr (max 0 (n - min (1 + int (length ts)) n))"
    using remaining_healthy [OF h2] by simp
  ultimately show ?thesis
    using whole d2 by (simp add: max_def min_def)
qed

theorem rate_limit_window_witness:
  "fst (calls ''k'' 2 60 [1000, 1001, 1002] (healthy_redis 1000)) = [True, True, False] \<and>
   db (snd (calls ''k'' 2 60 [1000, 1001, 1002] (healthy_redis 1000))) (KRateLimit ''k'')
     = Some (RStr (SInt 2), Some 1060) \<and>
   fst (get_rate_limit_remaining ''k'' 2 (snd (calls ''k'' 2 60 [1000, 1001, 1002] (healthy_redis 1000))))
     = Inr 0"
proof -
  have h: "healthy (healthy_redis 1000)"
    by (simp add: healthy_def healthy_redis_def)
  have l: "live ((healthy_redis 1000)\<lparr>clock := 1000\<rparr>) (KRateLimit ''k'') = None"
    by (simp add: live_def healthy_redis_def)
  have t: "\<forall>t \<in> set [1001, 1002 :: real]. t < 1000 + real_of_int 60"
    by simp
  have n: "(1 :: int) \<le> 2" and w: "(1 :: int) \<le> 60" by simp_all
  have a: "representable 1000 60"
    by (simp add: representable_def llong_max_def)
  from rate_limit_window [OF n w a h l t]
  show ?thesis by (simp add: upt_rec)
qed

text \<open>
  C3 as stated fails for the limit 0: the first call of a window is permitted without
  a look at the limit, and leaves the counter at 1. It fails for a window beyond what
  Redis takes as a time to live, here the largest 64-bit integer: SETEX is refused,
  the handler permits every call, and no counter is created.
\<close>

theorem rate_limit_zero_counterexample:
  "fst (check_rate_limit ''k'' 0 60 (healthy_redis 1000)) = Inr True \<and>
   db (snd (check_rate_limit ''k'' 0 60 (healthy_redis 1000))) (KRateLimit ''k'')
     = Some (RStr (SInt 1), Some 1060) \<and>
   fst (calls ''k'' 2 9223372036854775807 [1000, 1001, 1002] (healthy_redis 1000))
     = [True, True, True] \<and>
   db (snd (calls ''k'' 2 9223372036854775807 [1000, 1001, 1002] (healthy_redis 1000)))
     (KRateLimit ''k'') = None"
  by code_simp

subsection \<open>What the service calls of the routes do\<close>

lemma live_store: "live (store k v ex r) k' =
    (if k' = k then (case ex of None \<Rightarrow> Some (v, None)
                     | Some t \<Rightarrow> if clock r < t then Some (v, Some t) else None)
     else live r k')"
  by (auto simp: live_def store_def split: option.splits)

lemma frame_refl: "healthy r \<Longrightarrow> frame ks r r"
  by (simp add: frame_def)

lemma frame_store: "healthy r \<Longrightarrow> k \<in> ks \<Longrightarrow> frame ks r (store k v ex r)"
  by (auto simp: frame_def healthy_store clock_store db_store)

lemma frame_live: "frame ks r r' \<Longrightarrow> k \<notin> ks \<Longrightarrow> live r' k = live r k"
  by (auto simp: frame_def live_def split: option.splits)

lemma frame_online_key_ok: "frame ks r r' \<Longrightarrow> KOnline \<notin> ks \<Longrightarrow> online_key_ok r' = online_key_ok r"
  by (simp add: frame_def online_key_ok_def)

lemma healthy_elapse: "healthy (elapse d r) = healthy r"
  by (simp add: healthy_def elapse_def)

lemma update_last_seen_healthy:
  "healthy r \<Longrightarrow> update_last_seen d r = (Inr True, store (KLastSeen d) (RStr (STime (clock r))) None r)"
  by (simp add: update_last_seen_def r_set_def transport_healthy io_defs)

lemma get_device_by_api_key_healthy:
  "healthy r \<Longrightarrow> snd (get_device_by_api_key k r) = r"
  by (simp add: get_device_by_api_key_def r_get_def transport_healthy io_defs
      split: option.splits prod.splits sum.splits rvalue.splits)

lemma cache_api_key_effect:
  "healthy r \<Longrightarrow> cache_api_key k info 3600 r =
     (if representable (clock r) 3600
      then (Inr True, store (KApiKey k) (RStr (SDoc info)) (Some (clock r + 3600)) r)
      else (Inr False, r))"
  by (simp add: cache_api_key_def r_setex_def transport_healthy io_defs)

lemma cache_api_key_frame:
  "healthy r \<Longrightarrow> frame {KApiKey k} r (snd (cache_api_key k info 3600 r))"
  by (simp add: cache_api_key_effect frame_store frame_refl)

lemma cache_latest_frame:
  "healthy r \<Longrightarrow> frame {KLatest d} r (snd (cache_latest_telemetry d m ttl r))"
  by (auto simp: cache_latest_telemetry_def r_hset_def r_expire_def client_def wire_def transport_healthy
      healthy_def io_defs frame_def store_def
      split: option.splits prod.splits sum.splits rvalue.splits)

lemma cache_latest_telemetry_returns: "\<exists>b r'. cache_latest_telemetry d m t r = (Inr b, r')"
  by (simp add: cache_latest_telemetry_def try_except_Inr)

lemma set_device_online_returns: "\<exists>b r'. set_device_online d r = (Inr b, r')"
  by (simp add: set_device_online_def try_except_Inr)

lemma update_last_seen_returns: "\<exists>b r'. update_last_seen d r = (Inr b, r')"
  by (simp add: update_last_seen_def try_except_Inr)

lemma get_device_by_api_key_returns: "\<exists>x r'. get_device_by_api_key k r = (Inr x, r')"
  by (simp add: get_device_by_api_key_def try_except_Inr)

lemma cache_api_key_returns: "\<exists>b r'. cache_api_key k i t r = (Inr b, r')"
  by (simp add: cache_api_key_def try_except_Inr)

lemma secondary_updates_returns: "\<exists>r'. secondary_updates d m r = (Inr (), r')"
proof -
  obtain b1 r1 where 1: "cache_latest_telemetry d m 600 r = (Inr b1, r1)"
    using cache_latest_telemetry_returns by blast
  obtain b2 r2 where 2: "set_device_online d r1 = (Inr b2, r2)"
    using set_device_online_returns by blast
  obtain b3 r3 where 3: "update_last_seen d r2 = (Inr b3, r3)"
    using update_last_seen_returns by blast
  show ?thesis
    by (simp add: secondary_updates_def and_then_def 1 2 3 ret_def)
qed

lemma write_telemetry_returns: "\<exists>b c'. write_telemetry now i m t md c = (Inr b, c')"
  by (cases "falsy_id i \<or> m = []") (auto simp: write_telemetry_def ret_def try_except_Inr)

lemma write_with_user_returns: "\<exists>b c'. write_telemetry_with_user now i u m t c = (Inr b, c')"
proof -
  obtain b1 c1 where 1: "write_telemetry now i m t None c = (Inr b1, c1)"
    using write_telemetry_returns by blast
  show ?thesis
    by (cases b1) (auto simp: write_telemetry_with_user_def and_then_def 1 try_except_Inr ret_def)
qed

lemma log_event_returns:
  "\<exists>x w'. try_except (on_mongo (log_event ev)) None w = (Inr x, w') \<and>
    redis_service w' = redis_service w \<and> cassandra_service w' = cassandra_service w \<and>
    device_table w' = device_table w"
  by (cases "log_event ev (mongodb_service w)")
     (auto simp: try_except_def on_mongo_def split: sum.splits)

subsection \<open>The submission of a resolved device\<close>

lemma store_resolved_parts:
  assumes "p_data data \<noteq> []" and "resolve_timestamp fromiso (p_timestamp data) (utcnow w) = Inr ts"
  shows "fst (store_resolved fromiso (Some dev) data w) =
           Inr (if written dev data ts w then Reply 201 (Stored (dev_id dev) ts)
                else Reply 500 (Message ''Failed to store telemetry data'')) \<and>
         redis_service (snd (store_resolved fromiso (Some dev) data w)) =
           (if written dev data ts w
            then snd (secondary_updates (dev_id dev) (p_data data) (redis_service w))
            else redis_service w) \<and>
         cassandra_service (snd (store_resolved fromiso (Some dev) data w)) =
           snd (write_telemetry_with_user (utcnow w) (Some (dev_id dev)) (dev_user_id dev)
                  (p_data data) (Some ts) (cassandra_service w)) \<and>
         device_table (snd (store_resolved fromiso (Some dev) data w)) =
           map (touch (utcnow w) (dev_id dev)) (device_table w)"
proof -
  let ?ev = "submitted_event dev ts (p_data data)"
  obtain b c' where W: "write_telemetry_with_user (utcnow w) (Some (dev_id dev)) (dev_user_id dev)
      (p_data data) (Some ts) (cassandra_service w) = (Inr b, c')"
    using write_with_user_returns by blast
  obtain r' where S: "secondary_updates (dev_id dev) (p_data data) (redis_service w) = (Inr (), r')"
    using secondary_updates_returns by blast
  define w1 where "w1 = w\<lparr>cassandra_service := c'\<rparr>"
  define w2 where "w2 = (if b then w1\<lparr>redis_service := r'\<rparr> else w1)"
  define w3 where "w3 = w2\<lparr>device_table := map (touch (utcnow w) (dev_id dev)) (device_table w)\<rparr>"
  have A: "on_cassandra (write_telemetry_with_user (utcnow w) (Some (dev_id dev)) (dev_user_id dev)
             (p_data data) (Some ts)) w = (Inr b, w1)"
    by (simp add: on_cassandra_def W w1_def)
  have B: "(if b then on_redis (secondary_updates (dev_id dev) (p_data data)) else ret ()) w1
             = (Inr (), w2)"
    by (simp add: on_redis_def S w1_def w2_def ret_def)
  have C: "on_postgres (device_update_last_seen (utcnow w) (dev_id dev)) w2 = (Inr (), w3)"
    by (simp add: on_postgres_def device_update_last_seen_def w3_def w2_def w1_def)
  obtain y w4 where N: "try_except (on_mongo (log_event ?ev)) None w3 = (Inr y, w4)"
    and keep: "redis_service w4 = redis_service w3" "cassandra_service w4 = cassandra_service w3"
      "device_table w4 = device_table w3"
    using log_event_returns [of ?ev w3] by blast
  have eq: "store_resolved fromiso (Some dev) data w =
      (Inr (if b then Reply 201 (Stored (dev_id dev) ts)
            else Reply 500 (Message ''Failed to store telemetry data'')), w4)"
    using assms by (simp add: store_resolved_def and_then_def A B C N ret_def)
  show ?thesis
    unfolding eq using W S keep
    by (auto simp: written_def w3_def w2_def w1_def)
qed

lemma resolve_device_frame:
  assumes "resolve_device k w = (res, w1)"
  shows "cassandra_service w1 = cassandra_service w \<and> mongodb_service w1 = mongodb_service w \<and>
         device_table w1 = device_table w \<and>
         (healthy (redis_service w) \<longrightarrow> frame {KApiKey k} (redis_service w) (redis_service w1))"
proof -
  obtain x r1 where G: "get_device_by_api_key k (redis_service w) = (Inr x, r1)"
    using get_device_by_api_key_returns by blast
  have r1: "healthy (redis_service w) \<Longrightarrow> r1 = redis_service w"
    using get_device_by_api_key_healthy [of "redis_service w" k] G by simp
  show ?thesis
  proof (cases x)
    case (Some info)
    then show ?thesis
      using assms G r1
      by (auto simp: resolve_device_def and_then_def on_redis_def on_postgres_def query_get_def
          frame_refl)
  next
    case None
    let ?found = "find (\<lambda>d. dev_api_key d = k) (device_table w)"
    show ?thesis
    proof (cases ?found)
      case None
      then show ?thesis
        using assms G r1 \<open>x = None\<close>
        by (auto simp: resolve_device_def and_then_def on_redis_def on_postgres_def
            query_by_api_key_def frame_refl ret_def)
    next
      case (Some dev)
      obtain b r2 where C: "cache_api_key k (info_of dev) 3600 r1 = (Inr b, r2)"
        using cache_api_key_returns by blast
      have "healthy (redis_service w) \<Longrightarrow> frame {KApiKey k} (redis_service w) r2"
        using C r1 cache_api_key_frame [of "redis_service w" k "info_of dev"] by auto
      then show ?thesis
        using assms G \<open>x = None\<close> Some C
        by (auto simp: resolve_device_def and_then_def on_redis_def on_postgres_def
            query_by_api_key_def ret_def)
    qed
  qed
qed

lemma store_telemetry_resolved:
  assumes "json_body req = Document data" "api_key_header req = Some k" "k \<noteq> []"
    and "resolve_device k w = (Inr (Some dev), w1)"
  shows "store_telemetry fromiso req w =
          (case store_resolved fromiso (Some dev) data w1 of
             (Inr rep, w') \<Rightarrow> (rep, w')
           | (Inl e, w') \<Rightarrow> (Reply 500 (Message ''Internal server error''), w'))"
  using assms
  by (simp add: store_telemetry_def store_telemetry_body_def with_device_def and_then_def)

lemma store_telemetry_stored:
  assumes "fst (store_telemetry fromiso req w) = Reply 201 (Stored d ts)"
  shows "\<exists>data k dev w1. json_body req = Document data \<and> api_key_header req = Some k \<and> k \<noteq> [] \<and>
           resolve_device k w = (Inr (Some dev), w1) \<and> d = dev_id dev \<and> p_data data \<noteq> [] \<and>
           resolve_timestamp fromiso (p_timestamp data) (utcnow w1) = Inr ts \<and>
           written dev data ts w1"
proof -
  have other: "fst (store_telemetry fromiso req w) \<noteq> Reply 201 (Stored d ts)"
    if "json_body req = NotObject"
    using that
    by (cases "api_key_header req"; cases "resolve_device (the (api_key_header req)) w")
       (auto simp: store_telemetry_def store_telemetry_body_def with_device_def io_defs
          split: sum.splits option.splits)
  from assms obtain data where J: "json_body req = Document data"
    using other
    by (cases "json_body req") (auto simp: store_telemetry_def store_telemetry_body_def io_defs)
  from assms J obtain k where K: "api_key_header req = Some k" "k \<noteq> []"
    by (cases "api_key_header req")
       (auto simp: store_telemetry_def store_telemetry_body_def with_device_def ret_def split: if_splits)
  obtain res w1 where R: "resolve_device k w = (res, w1)" by fastforce
  from assms J K R obtain dev where D: "res = Inr (Some dev)"
    by (cases res; cases "projr res")
       (auto simp: store_telemetry_def store_telemetry_body_def with_device_def store_resolved_def
          and_then_def ret_def)
  have E: "store_telemetry fromiso req w =
          (case store_resolved fromiso (Some dev) data w1 of
             (Inr rep, w') \<Rightarrow> (rep, w')
           | (Inl e, w') \<Rightarrow> (Reply 500 (Message ''Internal server error''), w'))"
    using store_telemetry_resolved J K R D by simp
  have N: "p_data data \<noteq> []"
    using assms E by (auto simp: store_resolved_def ret_def)
  obtain t where T: "resolve_timestamp fromiso (p_timestamp data) (utcnow w1) = Inr t"
    using assms E N
    by (cases "resolve_timestamp fromiso (p_timestamp data) (utcnow w1)") (auto simp: store_resolved_def)
  have F: "fst (store_resolved fromiso (Some dev) data w1) =
           Inr (if written dev data t w1 then Reply 201 (Stored (dev_id dev) t)
                else Reply 500 (Message ''Failed to store telemetry data''))"
    using store_resolved_parts [OF N T] by simp
  from assms E F have "d = dev_id dev \<and> t = ts \<and> written dev data t w1"
    by (cases "store_resolved fromiso (Some dev) data w1") (auto split: if_splits sum.splits)
  then show ?thesis
    using J K R D N T by auto
qed

subsection \<open>Presence\<close>

lemma is_device_online_healthy:
  "healthy r \<Longrightarrow> fst (is_device_online d r) =
     Inr (case presence r d of None \<Rightarrow> False | Some s \<Rightarrow> s \<noteq> 0 \<and> clock r - s < 300)"
  by (auto simp: is_device_online_def r_zscore_def presence_def transport_healthy falsy_score_def io_defs
      split: option.splits prod.splits sum.splits rvalue.splits)

lemma set_device_online_healthy:
  assumes "healthy r" "online_key_ok r"
  shows "\<exists>z. snd (set_device_online d r) =
           store (KLastSeen d) (RStr (STime (clock r))) None (store KOnline (RZSet z) None r)
         \<and> map_of z d = Some (clock r)"
proof (cases "db r KOnline")
  case None
  then have "live r KOnline = None" by (simp add: live_def)
  then have "snd (set_device_online d r) =
           store (KLastSeen d) (RStr (STime (clock r))) None (store KOnline (RZSet [(d, clock r)]) None r)"
    using assms(1)
    by (simp add: set_device_online_def r_zadd_def transport_healthy update_last_seen_healthy healthy_store
        clock_store io_defs)
  then show ?thesis
    by (intro exI [of _ "[(d, clock r)]"]) simp
next
  case (Some a)
  then obtain z where a: "a = (RZSet z, None)"
    using assms(2) by (auto simp: online_key_ok_def split: prod.splits rvalue.splits option.splits)
  then have "live r KOnline = Some (RZSet z, None)" using Some by (simp add: live_def)
  then have "snd (set_device_online d r) =
           store (KLastSeen d) (RStr (STime (clock r))) None
             (store KOnline (RZSet (AList.update d (clock r) z)) None r)"
    using assms(1)
    by (simp add: set_device_online_def r_zadd_def transport_healthy update_last_seen_healthy healthy_store
        clock_store io_defs)
  then show ?thesis
    by (intro exI [of _ "AList.update d (clock r) z"]) (simp add: update_conv')
qed

lemma secondary_updates_presence:
  assumes "healthy r" "online_key_ok r"
  shows "healthy (snd (secondary_updates d m r)) \<and> clock (snd (secondary_updates d m r)) = clock r \<and>
         (\<exists>z. db (snd (secondary_updates d m r)) KOnline = Some (RZSet z, None) \<and> map_of z d = Some (clock r))"
proof -
  obtain b1 r1 where 1: "cache_latest_telemetry d m 600 r = (Inr b1, r1)"
    using cache_latest_telemetry_returns by blast
  have f1: "frame {KLatest d} r r1" using cache_latest_frame [OF assms(1), of d m 600] 1 by simp
  then have h1: "healthy r1" and c1: "clock r1 = clock r" by (simp_all add: frame_def)
  have o1: "online_key_ok r1" using frame_online_key_ok [OF f1] assms(2) by simp
  obtain b2 r2 where 2: "set_device_online d r1 = (Inr b2, r2)"
    using set_device_online_returns by blast
  obtain z where z: "r2 = store (KLastSeen d) (RStr (STime (clock r1))) None (store KOnline (RZSet z) None r1)"
    "map_of z d = Some (clock r1)"
    using set_device_online_healthy [OF h1 o1, of d] 2 by auto
  have h2: "healthy r2" using h1 z by (simp add: healthy_store)
  have 3: "update_last_seen d r2 = (Inr True, store (KLastSeen d) (RStr (STime (clock r2))) None r2)"
    using update_last_seen_healthy [OF h2] .
  have "snd (secondary_updates d m r) = store (KLastSeen d) (RStr (STime (clock r2))) None r2"
    by (simp add: secondary_updates_def and_then_def 1 2 3 ret_def)
  then show ?thesis
    using h2 z c1 by (auto simp: healthy_store clock_store db_store)
qed

lemma presence_elapse:
  "db r KOnline = Some (RZSet z, None) \<Longrightarrow> presence (elapse t r) d = map_of z d"
  by (simp add: presence_def live_def elapse_def)

lemma online_after_submit:
  assumes "fst (store_telemetry fromiso req w) = Reply 201 (Stored d ts)"
    and "healthy (redis_service w)" and "online_key_ok (redis_service w)"
    and "clock (redis_service w) \<noteq> 0"
  shows "fst (is_device_online d (elapse t (redis_service (snd (store_telemetry fromiso req w)))))
           = Inr (t < 300)"
proof -
  obtain data k dev w1 where J: "json_body req = Document data" "api_key_header req = Some k" "k \<noteq> []"
    and R: "resolve_device k w = (Inr (Some dev), w1)" and d: "d = dev_id dev"
    and N: "p_data data \<noteq> []"
    and T: "resolve_timestamp fromiso (p_timestamp data) (utcnow w1) = Inr ts"
    and W: "written dev data ts w1"
    using store_telemetry_stored [OF assms(1)] by blast
  have F: "frame {KApiKey k} (redis_service w) (redis_service w1)"
    using resolve_device_frame [OF R] assms(2) by simp
  then have h1: "healthy (redis_service w1)" and c1: "clock (redis_service w1) = clock (redis_service w)"
    by (simp_all add: frame_def)
  have o1: "online_key_ok (redis_service w1)"
    using frame_online_key_ok [OF F] assms(3) by simp
  let ?r = "redis_service (snd (store_telemetry fromiso req w))"
  have "snd (store_telemetry fromiso req w) = snd (store_resolved fromiso (Some dev) data w1)"
    using store_telemetry_resolved [OF J R, of fromiso]
    by (cases "store_resolved fromiso (Some dev) data w1") (auto split: sum.splits)
  then have r: "?r = snd (secondary_updates d (p_data data) (redis_service w1))"
    using store_resolved_parts [OF N T, of dev] W d by simp
  obtain z where h: "healthy ?r" and c: "clock ?r = clock (redis_service w)"
    and z: "db ?r KOnline = Some (RZSet z, None)" "map_of z d = Some (clock (redis_service w))"
    using secondary_updates_presence [OF h1 o1, of d "p_data data"] r c1 by auto
  have "presence (elapse t ?r) d = Some (clock (redis_service w))"
    using presence_elapse [OF z(1)] z(2) by simp
  then show ?thesis
    using is_device_online_healthy [of "elapse t ?r" d] h c assms(4)
    by (simp add: healthy_clock elapse_def)
qed

text \<open>
  C9, amended. With a cache that answers, \<open>is_device_online\<close> is computed at the time
  of the call from the presence record: it returns \<open>True\<close> exactly when the device has a
  record and the clock minus the recorded instant is below 300 seconds (a record of the
  instant 0 set aside). After a submission answered with 201, made at a non-zero
  instant with a cache that answers, the device is online at once and for every
  \<open>t < 300\<close> seconds after it, and offline from 300 seconds on, with nothing else
  called in between.
\<close>

theorem online_is_time_windowed:
  "(healthy r \<and> presence r d \<noteq> Some 0 \<longrightarrow>
      fst (is_device_online d r)
        = Inr (case presence r d of None \<Rightarrow> False | Some s \<Rightarrow> clock r - s < 300)) \<and>
   (fst (store_telemetry fromiso req w) = Reply 201 (Stored d' ts) \<and> healthy (redis_service w) \<and>
      online_key_ok (redis_service w) \<and> clock (redis_service w) \<noteq> 0 \<longrightarrow>
      fst (is_device_online d' (elapse t (redis_service (snd (store_telemetry fromiso req w)))))
        = Inr (t < 300))"
proof -
  have "healthy r \<Longrightarrow> presence r d \<noteq> Some 0 \<Longrightarrow>
      fst (is_device_online d r)
        = Inr (case presence r d of None \<Rightarrow> False | Some s \<Rightarrow> clock r - s < 300)"
    using is_device_online_healthy [of r d] by (auto split: option.splits)
  then show ?thesis
    using online_after_submit by blast
qed

theorem online_is_time_windowed_witness:
  "fst (is_device_online 7 (elapse 100 (snd (set_device_online 7 (healthy_redis 700))))) = Inr True \<and>
   fst (is_device_online 7 (elapse 0 (redis_service (snd (store_telemetry sample_fromiso
          (submission [(''temperature'', JNum (47 / 2))] None) (fresh_world 1000)))))) = Inr True \<and>
   fst (is_device_online 7 (elapse 300 (redis_service (snd (store_telemetry sample_fromiso
          (submission [(''temperature'', JNum (47 / 2))] None) (fresh_world 1000)))))) = Inr False"
proof -
  let ?r = "elapse 100 (snd (set_device_online 7 (healthy_redis 700)))"
  let ?req = "submission [(''temperature'', JNum (47 / 2))] None"
  have h: "healthy ?r" by code_simp
  have p: "presence ?r 7 = Some 700" by code_simp
  have c: "clock ?r = 800" by code_simp
  have s: "fst (store_telemetry sample_fromiso ?req (fresh_world 1000)) = Reply 201 (Stored 7 1000)"
    by code_simp
  have hw: "healthy (redis_service (fresh_world 1000))" by code_simp
  have ow: "online_key_ok (redis_service (fresh_world 1000))" by code_simp
  have cw: "clock (redis_service (fresh_world 1000)) \<noteq> 0" by code_simp
  from online_is_time_windowed [of ?r 7 sample_fromiso ?req "fresh_world 1000" 7 1000 0]
       online_is_time_windowed [of ?r 7 sample_fromiso ?req "fresh_world 1000" 7 1000 300]
       h p c s hw ow cw
  show ?thesis by simp
qed

text \<open>
  C9 as stated fails when the cache does not answer: the submission is stored and
  answered with 201, the presence update is given up, and \<open>is_device_online\<close> returns
  \<open>False\<close> right after it. It also fails for a record of the instant 0, which
  \<^verbatim>\<open>if not score\<close> takes for a missing one.
\<close>

theorem online_counterexample:
  "fst (store_telemetry sample_fromiso (submission [(''temperature'', JNum (47 / 2))] None)
          ((fresh_world 1000)\<lparr>redis_service := (healthy_redis 1000)\<lparr>connected := False\<rparr>\<rparr>))
     = Reply 201 (Stored 7 1000) \<and>
   fst (is_device_online 7 (redis_service (snd (store_telemetry sample_fromiso
          (submission [(''temperature'', JNum (47 / 2))] None)
          ((fresh_world 1000)\<lparr>redis_service := (healthy_redis 1000)\<lparr>connected := False\<rparr>\<rparr>)))))
     = Inr False \<and>
   presence (elapse 100 (snd (set_device_online 7 (healthy_redis 0)))) 7 = Some 0 \<and>
   clock (elapse 100 (snd (set_device_online 7 (healthy_redis 0)))) = 100 \<and>
   fst (is_device_online 7 (elapse 100 (snd (set_device_online 7 (healthy_redis 0))))) = Inr False"
  by code_simp

subsection \<open>The timestamp of a submission\<close>

text \<open>
  C7, amended. For a submission of an authenticated device with measurements: a
  non-empty timestamp string is parsed by \<open>fromisoformat\<close>, a trailing \<open>Z\<close> read as
  \<open>+00:00\<close>; if it does not parse, the answer is 400 and nothing is written; if it
  parses, the write is made at the parsed instant, which a 201 answer carries. Without
  a timestamp, or with the empty string, the instant is the time of the call.
\<close>

theorem submission_timestamp:
  assumes "json_body req = Document data" and "api_key_header req = Some k" and "k \<noteq> []"
    and "resolve_device k w = (Inr (Some dev), w1)"
    and "p_data data \<noteq> []"
  shows "(p_timestamp data = Some s \<and> s \<noteq> [] \<and>
            fromiso (if endswith s CHR ''Z'' then replace_Z s else s) = None \<longrightarrow>
          store_telemetry fromiso req w =
            (Reply 400 (Message ''Invalid timestamp format. Use ISO 8601 format.''), w1)) \<and>
         ((p_timestamp data = Some s \<and> s \<noteq> [] \<and>
             fromiso (if endswith s CHR ''Z'' then replace_Z s else s) = Some t) \<or>
          ((p_timestamp data = None \<or> p_timestamp data = Some []) \<and> t = utcnow w1) \<longrightarrow>
          cassandra_service (snd (store_telemetry fromiso req w)) =
            snd (write_telemetry_with_user (utcnow w1) (Some (dev_id dev)) (dev_user_id dev)
                   (p_data data) (Some t) (cassandra_service w1)) \<and>
          (status (fst (store_telemetry fromiso req w)) = 201 \<longrightarrow>
             fst (store_telemetry fromiso req w) = Reply 201 (Stored (dev_id dev) t)))"
proof -
  note route = store_telemetry_resolved [OF assms(1-4), of fromiso]
  have bad: "store_telemetry fromiso req w =
            (Reply 400 (Message ''Invalid timestamp format. Use ISO 8601 format.''), w1)"
    if "p_timestamp data = Some s" "s \<noteq> []"
       "fromiso (if endswith s CHR ''Z'' then replace_Z s else s) = None"
  proof -
    have "resolve_timestamp fromiso (p_timestamp data) (utcnow w1) = Inl ValueError"
      using that by (simp add: resolve_timestamp_def)
    then show ?thesis
      using route assms(5) by (simp add: store_resolved_def)
  qed
  have good: "cassandra_service (snd (store_telemetry fromiso req w)) =
            snd (write_telemetry_with_user (utcnow w1) (Some (dev_id dev)) (dev_user_id dev)
                   (p_data data) (Some t) (cassandra_service w1)) \<and>
          (status (fst (store_telemetry fromiso req w)) = 201 \<longrightarrow>
             fst (store_telemetry fromiso req w) = Reply 201 (Stored (dev_id dev) t))"
    if "resolve_timestamp fromiso (p_timestamp data) (utcnow w1) = Inr t"
    using route store_resolved_parts [OF assms(5) that, of dev]
    by (cases "store_resolved fromiso (Some dev) data w1") (auto split: sum.splits if_splits)
  have "resolve_timestamp fromiso (p_timestamp data) (utcnow w1) = Inr t"
    if "(p_timestamp data = Some s \<and> s \<noteq> [] \<and>
             fromiso (if endswith s CHR ''Z'' then replace_Z s else s) = Some t) \<or>
          ((p_timestamp data = None \<or> p_timestamp data = Some []) \<and> t = utcnow w1)"
    using that by (auto simp: resolve_timestamp_def)
  then show ?thesis
    using bad good by blast
qed

theorem submission_timestamp_witness:
  "fst (store_telemetry sample_fromiso
          (submission [(''temperature'', JNum (47 / 2))] (Some ''yesterday'')) (fresh_world 1000))
     = Reply 400 (Message ''Invalid timestamp format. Use ISO 8601 format.'') \<and>
   fst (store_telemetry sample_fromiso
          (submission [(''temperature'', JNum (47 / 2))] (Some ''2024-01-01T00:00:00Z'')) (fresh_world 1000))
     = Reply 201 (Stored 7 1704067200) \<and>
   fst (store_telemetry sample_fromiso
          (submission [(''temperature'', JNum (47 / 2))] None) (fresh_world 1000))
     = Reply 201 (Stored 7 1000)"
proof -
  let ?m = "[(''temperature'', JNum (47 / 2))]"
  let ?w = "fresh_world 1000"
  let ?w1 = "snd (resolve_device ''k7'' ?w)"
  have j: "json_body (submission ?m ts) = Document \<lparr>p_data = ?m, p_timestamp = ts\<rparr>" for ts
    by (simp add: submission_def)
  have k: "api_key_header (submission ?m ts) = Some ''k7''" for ts
    by (simp add: submission_def)
  have n: "''k7'' \<noteq> []" by simp
  have "fst (resolve_device ''k7'' ?w) = Inr (Some sensor)" by code_simp
  then have r: "resolve_device ''k7'' ?w = (Inr (Some sensor), ?w1)"
    by (simp add: prod_eq_iff)
  have d: "p_data \<lparr>p_data = ?m, p_timestamp = ts\<rparr> \<noteq> []" for ts :: "string option"
    by simp
  have bad: "sample_fromiso (if endswith ''yesterday'' CHR ''Z'' then replace_Z ''yesterday'' else ''yesterday'') = None"
    by code_simp
  have good: "sample_fromiso (if endswith ''2024-01-01T00:00:00Z'' CHR ''Z''
      then replace_Z ''2024-01-01T00:00:00Z'' else ''2024-01-01T00:00:00Z'') = Some 1704067200"
    by code_simp
  have s1: "status (fst (store_telemetry sample_fromiso (submission ?m (Some ''2024-01-01T00:00:00Z'')) ?w)) = 201"
    by code_simp
  have s2: "status (fst (store_telemetry sample_fromiso (submission ?m None) ?w)) = 201"
    by code_simp
  have u: "utcnow ?w1 = 1000" by code_simp
  from submission_timestamp [OF j k n r d, of "Some ''yesterday''" "''yesterday''" sample_fromiso]
       submission_timestamp [OF j k n r d, of "Some ''2024-01-01T00:00:00Z''" "''2024-01-01T00:00:00Z''"
          sample_fromiso 1704067200]
       submission_timestamp [OF j k n r d, of None "[]" sample_fromiso 1000]
       bad good s1 s2 u
  show ?thesis by (simp add: sensor_def)
qed

text \<open>
  C7 as stated fails for the empty string: it is no ISO-8601 timestamp, and
  \<^verbatim>\<open>if timestamp_str\<close> takes it for an absent one, so the submission is stored at the
  time of the call and answered with 201.
\<close>

theorem empty_timestamp_counterexample:
  "sample_fromiso [] = None \<and>
   fst (store_telemetry sample_fromiso
          (submission [(''temperature'', JNum (47 / 2))] (Some [])) (fresh_world 1000))
     = Reply 201 (Stored 7 1000)"
  by code_simp

subsection \<open>The cache updates of a submission\<close>

lemma set_device_online_frame:
  "healthy r \<Longrightarrow> frame {KOnline, KLastSeen d} r (snd (set_device_online d r))"
  by (auto simp: set_device_online_def r_zadd_def r_set_def client_def wire_def transport_healthy
      update_last_seen_def healthy_def io_defs frame_def store_def
      split: option.splits prod.splits sum.splits rvalue.splits)

lemma update_last_seen_frame:
  "healthy r \<Longrightarrow> frame {KLastSeen d} r (snd (update_last_seen d r))"
  by (simp add: update_last_seen_healthy frame_store)

lemma frame_mono: "frame ks r r' \<Longrightarrow> ks \<subseteq> ks' \<Longrightarrow> frame ks' r r'"
  by (auto simp: frame_def)

lemma frame_trans: "frame ks r r' \<Longrightarrow> frame ks' r' r'' \<Longrightarrow> frame (ks \<union> ks') r r''"
  by (auto simp: frame_def)

lemma secondary_updates_frame:
  assumes "healthy r"
  shows "frame {KOnline, KLastSeen d} (snd (cache_latest_telemetry d m 600 r))
           (snd (secondary_updates d m r))"
proof -
  obtain b1 r1 where 1: "cache_latest_telemetry d m 600 r = (Inr b1, r1)"
    using cache_latest_telemetry_returns by blast
  have h1: "healthy r1" using cache_latest_frame [OF assms, of d m 600] 1 by (simp add: frame_def)
  obtain b2 r2 where 2: "set_device_online d r1 = (Inr b2, r2)"
    using set_device_online_returns by blast
  have f2: "frame {KOnline, KLastSeen d} r1 r2" using set_device_online_frame [OF h1, of d] 2 by simp
  then have h2: "healthy r2" by (simp add: frame_def)
  obtain b3 r3 where 3: "update_last_seen d r2 = (Inr b3, r3)"
    using update_last_seen_returns by blast
  have f3: "frame {KLastSeen d} r2 r3" using update_last_seen_frame [OF h2, of d] 3 by simp
  have "snd (secondary_updates d m r) = r3"
    by (simp add: secondary_updates_def and_then_def 1 2 3 ret_def)
  then show ?thesis
    using frame_trans [OF f2 f3] 1 by (simp add: insert_commute)
qed


lemma secondary_updates_state:
  "snd (secondary_updates d m r) =
     snd (update_last_seen d (snd (set_device_online d (snd (cache_latest_telemetry d m 600 r)))))"
proof -
  obtain b1 r1 where 1: "cache_latest_telemetry d m 600 r = (Inr b1, r1)"
    using cache_latest_telemetry_returns by blast
  obtain b2 r2 where 2: "set_device_online d r1 = (Inr b2, r2)"
    using set_device_online_returns by blast
  obtain b3 r3 where 3: "update_last_seen d r2 = (Inr b3, r3)"
    using update_last_seen_returns by blast
  show ?thesis
    by (simp add: secondary_updates_def and_then_def 1 2 3 ret_def)
qed

lemma live_expiry: "live r k = Some (v, Some t) \<Longrightarrow> clock r < t"
  by (auto simp: live_def split: option.splits prod.splits if_splits)

lemma hset_effect:
  assumes "healthy r" and "m \<noteq> []" and "encode_all m = Inr hs"
  shows "r_hset k m r =
          (case live r k of
             None \<Rightarrow> (Inr (), store k (RHash (hset_fields [] hs)) None r)
           | Some (RHash old, ex) \<Rightarrow> (Inr (), store k (RHash (hset_fields old hs)) ex r)
           | Some (_, _) \<Rightarrow> (Inl ResponseError, r))"
proof -
  have c: "client r = (Inr (), r)" and w: "wire r = (Inr (), r)"
    using assms(1) by (cases r; simp add: healthy_def client_def wire_def next_call_def)+
  show ?thesis
    using assms(2,3) by (simp add: r_hset_def c w and_then_def lift_def)
qed

lemma cache_latest_effect:
  assumes "healthy r" and "m \<noteq> []" and "encode_all m = Inr hs" and "representable (clock r) ttl"
    and "live r (KLatest d) = None \<or> cached_hash r d \<noteq> None"
  shows "db (snd (cache_latest_telemetry d m ttl r)) (KLatest d) =
           Some (RHash (hset_fields (case cached_hash r d of None \<Rightarrow> [] | Some h \<Rightarrow> h) hs),
                 Some (clock r + real_of_int ttl))"
proof -
  let ?old = "case cached_hash r d of None \<Rightarrow> [] | Some h \<Rightarrow> h"
  obtain ex where 1: "r_hset (KLatest d) m r = (Inr (), store (KLatest d) (RHash (hset_fields ?old hs)) ex r)"
    and l: "live (store (KLatest d) (RHash (hset_fields ?old hs)) ex r) (KLatest d)
              = Some (RHash (hset_fields ?old hs), ex)"
  proof (cases "live r (KLatest d)")
    case None
    then have "r_hset (KLatest d) m r = (Inr (), store (KLatest d) (RHash (hset_fields ?old hs)) None r)"
      using hset_effect [OF assms(1-3), of "KLatest d"] by (simp add: cached_hash_def)
    then show ?thesis using that [of None] by (simp add: live_store)
  next
    case (Some a)
    then obtain h e where a: "a = (RHash h, e)"
      using assms(5) by (cases a; cases "fst a") (auto simp: cached_hash_def)
    then have "r_hset (KLatest d) m r = (Inr (), store (KLatest d) (RHash (hset_fields ?old hs)) e r)"
      using hset_effect [OF assms(1-3), of "KLatest d"] Some by (simp add: cached_hash_def)
    moreover have "live (store (KLatest d) (RHash (hset_fields ?old hs)) e r) (KLatest d)
              = Some (RHash (hset_fields ?old hs), e)"
      using live_expiry [of r "KLatest d" "RHash h"] Some a
      by (cases e) (simp_all add: live_store)
    ultimately show ?thesis using that by blast
  qed
  let ?r1 = "store (KLatest d) (RHash (hset_fields ?old hs)) ex r"
  have h1: "healthy ?r1" using assms(1) by (simp add: healthy_store)
  have 2: "r_expire (KLatest d) ttl ?r1 =
        (Inr True, store (KLatest d) (RHash (hset_fields ?old hs)) (Some (clock r + real_of_int ttl)) ?r1)"
    using h1 assms(4) l by (simp add: r_expire_def and_then_def transport_healthy clock_store)
  show ?thesis
    by (simp add: cache_latest_telemetry_def try_except_def and_then_def 1 2 ret_def db_store)
qed

lemma secondary_updates_effect:
  assumes "healthy r" and "online_key_ok r"
  shows "presence (snd (secondary_updates d m r)) d = Some (clock r) \<and>
         db (snd (secondary_updates d m r)) (KLastSeen d) = Some (RStr (STime (clock r)), None) \<and>
         db (snd (secondary_updates d m r)) (KLatest d) =
           db (snd (cache_latest_telemetry d m 600 r)) (KLatest d)"
proof -
  let ?rc = "snd (cache_latest_telemetry d m 600 r)"
  let ?r' = "snd (secondary_updates d m r)"
  obtain z where h: "healthy ?r'" and c: "clock ?r' = clock r"
    and z: "db ?r' KOnline = Some (RZSet z, None)" "map_of z d = Some (clock r)"
    using secondary_updates_presence [OF assms, of d m] by auto
  have p: "presence ?r' d = Some (clock r)"
    using z by (simp add: presence_def live_def)
  have F: "frame {KOnline, KLastSeen d} ?rc ?r'"
    using secondary_updates_frame [OF assms(1)] .
  have k: "db ?r' (KLatest d) = db ?rc (KLatest d)"
    using F by (simp add: frame_def)
  let ?r2 = "snd (set_device_online d ?rc)"
  have hc: "healthy ?rc" and cc: "clock ?rc = clock r"
    using cache_latest_frame [OF assms(1), of d m 600] by (simp_all add: frame_def)
  have f2: "frame {KOnline, KLastSeen d} ?rc ?r2"
    using set_device_online_frame [OF hc] .
  then have h2: "healthy ?r2" and c2: "clock ?r2 = clock r" using cc by (simp_all add: frame_def)
  have "?r' = store (KLastSeen d) (RStr (STime (clock ?r2))) None ?r2"
    using update_last_seen_healthy [OF h2, of d] by (simp add: secondary_updates_state)
  then have s: "db ?r' (KLastSeen d) = Some (RStr (STime (clock r)), None)"
    using c2 by (simp add: db_store)
  show ?thesis using p s k by simp
qed


subsection \<open>Which failures abort a submission\<close>

text \<open>
  C1. For a submission of an authenticated device with measurements and a well-formed
  timestamp: the answer is 500 exactly when the durable write failed, and 201 with the
  device and the timestamp otherwise. When the write failed the cache is left as it
  was; when it succeeded the cache is what \<open>cache_latest_telemetry\<close> with a time to live
  of 600 seconds, \<open>set_device_online\<close> and \<open>update_last_seen\<close> make of it, which on a
  cache that answers is: the device's presence record and its last-seen at the time
  of the call, and the measurements merged into the device's hash, expiring 600
  seconds later. The answer is the same whatever the state of the cache and of the
  event log, so no failure of the cache updates or of the event log changes it.
\<close>

theorem submit_failure_semantics:
  assumes "json_body req = Document data" and "api_key_header req = Some k" and "k \<noteq> []"
    and "resolve_device k w = (Inr (Some dev), w1)"
    and "p_data data \<noteq> []"
    and "resolve_timestamp fromiso (p_timestamp data) (utcnow w1) = Inr ts"
  shows "(status (fst (store_telemetry fromiso req w)) = 500 \<longleftrightarrow> \<not> written dev data ts w1) \<and>
         fst (store_telemetry fromiso req w) =
           (if written dev data ts w1 then Reply 201 (Stored (dev_id dev) ts)
            else Reply 500 (Message ''Failed to store telemetry data'')) \<and>
         redis_service (snd (store_telemetry fromiso req w)) =
           (if written dev data ts w1
            then snd (update_last_seen (dev_id dev) (snd (set_device_online (dev_id dev)
                   (snd (cache_latest_telemetry (dev_id dev) (p_data data) 600 (redis_service w1))))))
            else redis_service w1) \<and>
         (written dev data ts w1 \<and> healthy (redis_service w1) \<and> online_key_ok (redis_service w1) \<longrightarrow>
            presence (redis_service (snd (store_telemetry fromiso req w))) (dev_id dev)
              = Some (clock (redis_service w1)) \<and>
            db (redis_service (snd (store_telemetry fromiso req w))) (KLastSeen (dev_id dev))
              = Some (RStr (STime (clock (redis_service w1))), None) \<and>
            (encode_all (p_data data) = Inr hs \<and> representable (clock (redis_service w1)) 600 \<and>
             (live (redis_service w1) (KLatest (dev_id dev)) = None \<or>
              cached_hash (redis_service w1) (dev_id dev) \<noteq> None) \<longrightarrow>
               db (redis_service (snd (store_telemetry fromiso req w))) (KLatest (dev_id dev))
                 = Some (RHash (hset_fields
                           (case cached_hash (redis_service w1) (dev_id dev) of
                              None \<Rightarrow> [] | Some h \<Rightarrow> h) hs),
                         Some (clock (redis_service w1) + 600)))) \<and>
         (clock r = clock (redis_service w1) \<longrightarrow>
            fst (store_resolved fromiso (Some dev) data (w1\<lparr>redis_service := r, mongodb_service := m\<rparr>))
              = fst (store_resolved fromiso (Some dev) data w1))"
proof -
  note parts = store_resolved_parts [OF assms(5) assms(6), of dev]
  note route = store_telemetry_resolved [OF assms(1-4), of fromiso]
  let ?d = "dev_id dev"
  let ?r1 = "redis_service w1"
  let ?r' = "redis_service (snd (store_telemetry fromiso req w))"
  have a: "fst (store_telemetry fromiso req w) =
      (if written dev data ts w1 then Reply 201 (Stored ?d ts)
       else Reply 500 (Message ''Failed to store telemetry data''))"
    using route parts by (cases "store_resolved fromiso (Some dev) data w1") (auto split: sum.splits)
  have b: "snd (store_telemetry fromiso req w) = snd (store_resolved fromiso (Some dev) data w1)"
    using route by (cases "store_resolved fromiso (Some dev) data w1") (auto split: sum.splits)
  have s: "?r' = (if written dev data ts w1 then snd (secondary_updates ?d (p_data data) ?r1) else ?r1)"
    using b parts by simp
  have e: "presence ?r' ?d = Some (clock ?r1) \<and>
           db ?r' (KLastSeen ?d) = Some (RStr (STime (clock ?r1)), None) \<and>
           (encode_all (p_data data) = Inr hs \<and> representable (clock ?r1) 600 \<and>
             (live ?r1 (KLatest ?d) = None \<or> cached_hash ?r1 ?d \<noteq> None) \<longrightarrow>
               db ?r' (KLatest ?d)
                 = Some (RHash (hset_fields (case cached_hash ?r1 ?d of None \<Rightarrow> [] | Some h \<Rightarrow> h) hs),
                         Some (clock ?r1 + 600)))"
    if "written dev data ts w1" "healthy ?r1" "online_key_ok ?r1"
  proof -
    note eff = secondary_updates_effect [OF that(2,3), of ?d "p_data data"]
    have "db ?r' (KLatest ?d)
                 = Some (RHash (hset_fields (case cached_hash ?r1 ?d of None \<Rightarrow> [] | Some h \<Rightarrow> h) hs),
                         Some (clock ?r1 + 600))"
      if "encode_all (p_data data) = Inr hs" "representable (clock ?r1) 600"
         "live ?r1 (KLatest ?d) = None \<or> cached_hash ?r1 ?d \<noteq> None"
      using cache_latest_effect [OF \<open>healthy ?r1\<close> assms(5) that] eff s \<open>written dev data ts w1\<close>
      by simp
    then show ?thesis
      using eff s that(1) by simp
  qed
  have c: "fst (store_resolved fromiso (Some dev) data (w1\<lparr>redis_service := r, mongodb_service := m\<rparr>))
              = fst (store_resolved fromiso (Some dev) data w1)" if "clock r = clock ?r1"
  proof -
    let ?w = "w1\<lparr>redis_service := r, mongodb_service := m\<rparr>"
    have u: "utcnow ?w = utcnow w1" using that by (simp add: utcnow_def)
    have t: "resolve_timestamp fromiso (p_timestamp data) (utcnow ?w) = Inr ts"
      using assms(6) u by simp
    have wr: "written dev data ts ?w = written dev data ts w1"
      using u by (simp add: written_def)
    show ?thesis
      using store_resolved_parts [OF assms(5) t, of dev] parts wr by simp
  qed
  have st: "status (fst (store_telemetry fromiso req w)) = 500 \<longleftrightarrow> \<not> written dev data ts w1"
    using a by simp
  show ?thesis
    using st a s e c by (simp add: secondary_updates_state)
qed

theorem submit_failure_semantics_witness:
  "fst (store_telemetry sample_fromiso (submission [(''temperature'', JNum (47 / 2))] None) (fresh_world 1000))
     = Reply 201 (Stored 7 1000) \<and>
   db (redis_service (snd (store_telemetry sample_fromiso
        (submission [(''temperature'', JNum (47 / 2))] None) (fresh_world 1000)))) (KLatest 7)
     = Some (RHash [(''temperature'', HNum (47 / 2))], Some 1600) \<and>
   presence (redis_service (snd (store_telemetry sample_fromiso
        (submission [(''temperature'', JNum (47 / 2))] None) (fresh_world 1000)))) 7 = Some 1000 \<and>
   fst (store_telemetry sample_fromiso (submission [(''temperature'', JNum (47 / 2))] None)
           ((fresh_world 1000)\<lparr>cassandra_service := empty_cassandra\<lparr>session := False\<rparr>\<rparr>))
     = Reply 500 (Message ''Failed to store telemetry data'') \<and>
   db (redis_service (snd (store_telemetry sample_fromiso
        (submission [(''temperature'', JNum (47 / 2))] None)
        ((fresh_world 1000)\<lparr>cassandra_service := empty_cassandra\<lparr>session := False\<rparr>\<rparr>)))) (KLatest 7)
     = None"
proof -
  let ?m = "[(''temperature'', JNum (47 / 2))]"
  let ?data = "\<lparr>p_data = ?m, p_timestamp = None\<rparr>"
  let ?req = "submission ?m None"
  let ?w = "fresh_world 1000"
  let ?v = "(fresh_world 1000)\<lparr>cassandra_service := empty_cassandra\<lparr>session := False\<rparr>\<rparr>"
  let ?w1 = "snd (resolve_device ''k7'' ?w)"
  let ?v1 = "snd (resolve_device ''k7'' ?v)"
  have j: "json_body ?req = Document ?data" by (simp add: submission_def)
  have k: "api_key_header ?req = Some ''k7''" by (simp add: submission_def)
  have n: "''k7'' \<noteq> []" by simp
  have "fst (resolve_device ''k7'' ?w) = Inr (Some sensor)" by code_simp
  then have rw: "resolve_device ''k7'' ?w = (Inr (Some sensor), ?w1)"
    by (simp add: prod_eq_iff)
  have "fst (resolve_device ''k7'' ?v) = Inr (Some sensor)" by code_simp
  then have rv: "resolve_device ''k7'' ?v = (Inr (Some sensor), ?v1)"
    by (simp add: prod_eq_iff)
  have d: "p_data ?data \<noteq> []" by simp
  have tw: "resolve_timestamp sample_fromiso (p_timestamp ?data) (utcnow ?w1) = Inr 1000"
    by code_simp
  have tv: "resolve_timestamp sample_fromiso (p_timestamp ?data) (utcnow ?v1) = Inr 1000"
    by code_simp
  have ww: "written sensor ?data 1000 ?w1" by code_simp
  have wv: "\<not> written sensor ?data 1000 ?v1" by code_simp
  have hw: "healthy (redis_service ?w1)" by code_simp
  have ow: "online_key_ok (redis_service ?w1)" by code_simp
  have cw: "clock (redis_service ?w1) = 1000" by code_simp
  have ew: "encode_all (p_data ?data) = Inr [(''temperature'', HNum (47 / 2))]" by code_simp
  have aw: "representable (clock (redis_service ?w1)) 600"
    unfolding cw by (simp add: representable_def llong_max_def)
  have lw: "live (redis_service ?w1) (KLatest (dev_id sensor)) = None" by code_simp
  have cached: "cached_hash (redis_service ?w1) 7 = None"
    using lw by (simp add: cached_hash_def sensor_def)
  have lv: "db (redis_service ?v1) (KLatest 7) = None" by code_simp
  have f: "hset_fields [] [(''temperature'', HNum (47 / 2))] = [(''temperature'', HNum (47 / 2))]"
    by code_simp
  let ?hs = "[(''temperature'', HNum (47 / 2))]"
  let ?rw = "redis_service (snd (store_telemetry sample_fromiso ?req ?w))"
  let ?rv = "redis_service (snd (store_telemetry sample_fromiso ?req ?v))"
  note good = submit_failure_semantics [OF j k n rw d tw, of ?hs]
  note bad = submit_failure_semantics [OF j k n rv d tv]
  from good ww have 1: "fst (store_telemetry sample_fromiso ?req ?w) = Reply 201 (Stored (dev_id sensor) 1000)"
    by simp
  from good ww hw ow have 2: "presence ?rw (dev_id sensor) = Some (clock (redis_service ?w1))"
    by blast
  from good ww hw ow ew aw lw
  have 3: "db ?rw (KLatest (dev_id sensor))
             = Some (RHash (hset_fields (case cached_hash (redis_service ?w1) (dev_id sensor) of
                              None \<Rightarrow> [] | Some h \<Rightarrow> h) ?hs),
                     Some (clock (redis_service ?w1) + 600))"
    by blast
  from bad wv have 4: "fst (store_telemetry sample_fromiso ?req ?v)
      = Reply 500 (Message ''Failed to store telemetry data'')"
    by simp
  from bad wv have 5: "?rv = redis_service ?v1"
    by simp
  show ?thesis
    using 1 2 3 4 lv
    by (simp add: sensor_def 5 cached cw f)
qed

end
